theory Spec2Isabelle
  imports Main "HOL-Library.Mapping"
begin

section \<open>Exceptions\<close>

text \<open>
  The driver's exception classes that the code names in an \<open>except\<close> clause, and one
  class for every other driver error. An \<open>except C\<close> clause is an instance test, so
  a driver exception is modelled by the class it falls under and its message.
\<close>

datatype pg_class =
    SyntaxOrAccessError
  | IntegrityConstraintViolationError
  | InvalidTransactionStateError
  | InvalidCatalogNameError
  | OtherPostgresError

text \<open>
  Exceptions as values. \<open>CancelledError\<close> stands for the exceptions that derive from
  \<open>BaseException\<close> only: a bare \<open>except:\<close> catches them, \<open>except Exception\<close> does
  not. The four normalized errors of \<open>postmodel.exceptions\<close> carry their constructor
  argument: the driver exception (\<open>OperationalError(exc)\<close>) or a formatted message.
\<close>

datatype exn =
    Asyncpg pg_class string
  | InterfaceError string
  | PyException string
  | AttributeError string
  | CancelledError
  | OperationalError arg
  | IntegrityError arg
  | TransactionManagementError arg
  | DBConnectionError arg
and arg = Exc exn | Str string

fun is_Exception :: "exn \<Rightarrow> bool" where
  "is_Exception CancelledError = False"
| "is_Exception _ = True"

fun is_TransactionManagementError :: "exn \<Rightarrow> bool" where
  "is_TransactionManagementError (TransactionManagementError _) = True"
| "is_TransactionManagementError _ = False"

text \<open>\<open>str(e)\<close>: the message of an exception built from one argument.\<close>

fun str_exn :: "exn \<Rightarrow> string" and str_arg :: "arg \<Rightarrow> string" where
  "str_exn (Asyncpg _ m) = m"
| "str_exn (InterfaceError m) = m"
| "str_exn (PyException m) = m"
| "str_exn (AttributeError m) = m"
| "str_exn CancelledError = []"
| "str_exn (OperationalError a) = str_arg a"
| "str_exn (IntegrityError a) = str_arg a"
| "str_exn (TransactionManagementError a) = str_arg a"
| "str_exn (DBConnectionError a) = str_arg a"
| "str_arg (Exc e) = str_exn e"
| "str_arg (Str s) = s"

section \<open>Driver objects, the event trace and the driver's behaviour\<close>

datatype pool = Pool nat
datatype connection = Connection nat
datatype transaction = Transaction connection

text \<open>
  Modelled from the spec: \<open>TransactedConnectionProxy\<close> (declared in \<open>base.py\<close>, which
  is not part of the sources) wraps the raw connection and flags it as already
  transacted; the constructor is the flag.
\<close>

datatype proxy = TransactedConnectionProxy connection

datatype pyval = PNone | PBool bool | PInt int | PStr string

type_synonym record_row = "(string \<times> pyval) list"

text \<open>Every call that leaves the program is logged, in call order, whether it fails or not.\<close>

datatype event =
    EvCreatePool
  | EvConnect
  | EvAcquire pool
  | EvRelease pool "connection option"
  | EvTxNew connection
  | EvTxStart connection
  | EvTxCommit connection
  | EvTxRollback connection
  | EvRegistrySet string proxy
  | EvRegistryReset string
  | EvExecute connection string "pyval list"
  | EvExecuteMany connection string "pyval list list"
  | EvFetch connection string "pyval list"
  | EvFetchRow connection string "pyval list"
  | EvClose connection

text \<open>
  The driver is outside the program: what each of its calls answers is a parameter.
  \<open>None\<close> in an \<open>exn option\<close> is a normal return. \<open>create_pool\<close> is asked twice by
  \<open>_create_pool\<close>, so its answer depends on the number of the attempt.
\<close>

record driver =
  create_pool :: "nat \<Rightarrow> exn + pool"
  connect :: "exn + connection"
  pool_acquire :: "pool \<Rightarrow> exn + connection"
  pool_release :: "pool \<Rightarrow> connection \<Rightarrow> exn option"
  tx_start :: "connection \<Rightarrow> exn option"
  tx_commit :: "connection \<Rightarrow> exn option"
  tx_rollback :: "connection \<Rightarrow> exn option"
  conn_execute :: "connection \<Rightarrow> string \<Rightarrow> pyval list \<Rightarrow> exn + string"
  conn_executemany :: "connection \<Rightarrow> string \<Rightarrow> pyval list list \<Rightarrow> exn option"
  conn_fetch :: "connection \<Rightarrow> string \<Rightarrow> pyval list \<Rightarrow> exn + record_row list"
  conn_fetchrow :: "connection \<Rightarrow> string \<Rightarrow> pyval list \<Rightarrow> exn + record_row option"
  conn_close :: "connection \<Rightarrow> exn option"

section \<open>The registry of transacted connections\<close>

text \<open>
  The state outside the engine and the context objects: the registry
  \<open>TransactedConnections\<close> and the trace of driver and registry calls.
\<close>

record world =
  registry :: "string \<rightharpoonup> proxy"
  trace :: "event list"

definition log :: "event \<Rightarrow> world \<Rightarrow> world" where
  "log ev w = w\<lparr>trace := trace w @ [ev]\<rparr>"

datatype token = Token "proxy option"

text \<open>
  Modelled from the spec: \<open>TransactedConnections\<close> is declared in \<open>base.py\<close>, which is
  not part of the sources. \<open>get(name)\<close> returns the bound handle or none and never
  raises; \<open>set(name, handle)\<close> binds and returns a restore token; \<open>reset(name, token)\<close>
  restores the value that was bound before the \<open>set\<close>.
\<close>

definition TransactedConnections_get :: "string \<Rightarrow> world \<Rightarrow> proxy option" where
  "TransactedConnections_get n w = registry w n"

definition TransactedConnections_set :: "string \<Rightarrow> proxy \<Rightarrow> world \<Rightarrow> token \<times> world" where
  "TransactedConnections_set n p w =
     (Token (registry w n), log (EvRegistrySet n p) (w\<lparr>registry := (registry w)(n \<mapsto> p)\<rparr>))"

definition TransactedConnections_reset :: "string \<Rightarrow> token \<Rightarrow> world \<Rightarrow> world" where
  "TransactedConnections_reset n t w =
     (case t of Token old \<Rightarrow> log (EvRegistryReset n) (w\<lparr>registry := (registry w)(n := old)\<rparr>))"

section \<open>PooledTransactionContext\<close>

text \<open>
  The slots of the class; \<open>is_done\<close> is the slot \<open>done\<close>. \<open>token\<close> is not assigned
  by \<open>__init__\<close>: \<open>None\<close> is the unset slot, whose read raises \<open>AttributeError\<close>.
  \<open>pool\<close> is \<open>None\<close> when the engine had no pool at the time \<open>in_transaction\<close> was
  called.
\<close>

record ctx =
  name :: string
  pool :: "pool option"
  timeout :: "nat option"
  connection :: "connection option"
  is_done :: bool
  transaction :: "transaction option"
  token :: "token option"

definition PooledTransactionContext :: "string \<Rightarrow> pool option \<Rightarrow> nat option \<Rightarrow> ctx" where
  "PooledTransactionContext n p t =
     \<lparr>name = n, pool = p, timeout = t, connection = None, is_done = False,
      transaction = None, token = None\<rparr>"

definition aenter :: "driver \<Rightarrow> ctx \<Rightarrow> world \<Rightarrow> (exn + proxy) \<times> ctx \<times> world" where
  "aenter d c w =
     (if connection c \<noteq> None \<or> is_done c
      then (Inl (PyException ''a connection is already acquired''), c, w)
      else case pool c of
        None \<Rightarrow> (Inl (AttributeError ''_acquire''), c, w)
      | Some p \<Rightarrow>
         (case pool_acquire d p of
            Inl e \<Rightarrow> (Inl e, c, log (EvAcquire p) w)
          | Inr con \<Rightarrow>
             (let c1 = c\<lparr>connection := Some con\<rparr>;
                  w1 = log (EvAcquire p) w;
                  c2 = c1\<lparr>transaction := Some (Transaction con)\<rparr>;
                  w2 = log (EvTxNew con) w1;
                  conn_proxy = TransactedConnectionProxy con;
                  (tok, w3) = TransactedConnections_set (name c2) conn_proxy w2;
                  c3 = c2\<lparr>token := Some tok\<rparr>;
                  w4 = log (EvTxStart con) w3
              in case tx_start d con of
                   Some e \<Rightarrow> (Inl e, c3, w4)
                 | None \<Rightarrow> (Inr conn_proxy, c3, w4))))"

text \<open>
  Lines 54 to 60 of \<open>__aexit__\<close>: rollback under a bare \<open>except: pass\<close> when the body
  raised, commit otherwise. The result is the exception that leaves the block, if any.
\<close>

definition end_transaction :: "driver \<Rightarrow> exn option \<Rightarrow> ctx \<Rightarrow> world \<Rightarrow> exn option \<times> world" where
  "end_transaction d exc c w =
     (case exc of
        Some _ \<Rightarrow>
          (case transaction c of
             None \<Rightarrow> (None, w)
           | Some (Transaction con) \<Rightarrow>
               (case tx_rollback d con of
                  Some _ \<Rightarrow> (None, log (EvTxRollback con) w)
                | None \<Rightarrow> (None, log (EvTxRollback con) w)))
      | None \<Rightarrow>
          (case transaction c of
             None \<Rightarrow> (Some (AttributeError ''commit''), w)
           | Some (Transaction con) \<Rightarrow> (tx_commit d con, log (EvTxCommit con) w)))"

text \<open>
  Lines 61 to 65: the exit actions. Releasing something that is not a connection of
  the pool makes the driver raise \<open>InterfaceError\<close>.
\<close>

definition cleanup :: "driver \<Rightarrow> ctx \<Rightarrow> world \<Rightarrow> (exn + unit) \<times> ctx \<times> world" where
  "cleanup d c w =
     (let c1 = c\<lparr>is_done := True\<rparr>;
          con = connection c1;
          c2 = c1\<lparr>connection := None\<rparr>
      in case token c2 of
           None \<Rightarrow> (Inl (AttributeError ''token''), c2, w)
         | Some tok \<Rightarrow>
            (let w1 = TransactedConnections_reset (name c2) tok w
             in case pool c2 of
                  None \<Rightarrow> (Inl (AttributeError ''release''), c2, w1)
                | Some p \<Rightarrow>
                   (let w2 = log (EvRelease p con) w1
                    in case con of
                         None \<Rightarrow> (Inl (InterfaceError ''release''), c2, w2)
                       | Some cn \<Rightarrow>
                          (case pool_release d p cn of
                             Some e \<Rightarrow> (Inl e, c2, w2)
                           | None \<Rightarrow> (Inr (), c2, w2)))))"

definition aexit :: "driver \<Rightarrow> exn option \<Rightarrow> ctx \<Rightarrow> world \<Rightarrow> (exn + unit) \<times> ctx \<times> world" where
  "aexit d exc c w =
     (case end_transaction d exc c w of
        (Some e, w1) \<Rightarrow> (Inl e, c, w1)
      | (None, w1) \<Rightarrow> cleanup d c w1)"

text \<open>
  \<open>async with ctx as conn: body\<close>. \<open>__aexit__\<close> returns \<open>None\<close>, so an exception of the
  body is raised again after it, unless \<open>__aexit__\<close> itself raises.
\<close>

definition async_with ::
  "driver \<Rightarrow> ctx \<Rightarrow> (proxy \<Rightarrow> world \<Rightarrow> (exn + 'a) \<times> world) \<Rightarrow> world \<Rightarrow> (exn + 'a) \<times> ctx \<times> world" where
  "async_with d c body w =
     (case aenter d c w of
        (Inl e, c1, w1) \<Rightarrow> (Inl e, c1, w1)
      | (Inr p, c1, w1) \<Rightarrow>
         (case body p w1 of
            (Inl e, w2) \<Rightarrow>
              (case aexit d (Some e) c1 w2 of
                 (Inl e', c2, w3) \<Rightarrow> (Inl e', c2, w3)
               | (Inr _, c2, w3) \<Rightarrow> (Inl e, c2, w3))
          | (Inr v, w2) \<Rightarrow>
              (case aexit d None c1 w2 of
                 (Inl e', c2, w3) \<Rightarrow> (Inl e', c2, w3)
               | (Inr _, c2, w3) \<Rightarrow> (Inr v, c2, w3))))"

section \<open>PostgresEngine\<close>

text \<open>
  The attributes of the engine that the modelled methods read; \<open>engine.pool\<close> is the
  attribute \<open>_pool\<close>. A pool object is truthy, so \<open>if self._pool\<close> tests for \<open>Some\<close>.
\<close>

record engine =
  name :: string
  user :: string
  database :: string
  pool :: "pool option"

definition db_create :: "driver \<Rightarrow> engine \<Rightarrow> world \<Rightarrow> (exn + unit) \<times> world" where
  \<open>db_create d e w =
     (let w1 = log EvConnect w
      in case connect d of
           Inl x \<Rightarrow> (Inl x, w1)
         | Inr conn \<Rightarrow>
            (let sql = ''CREATE DATABASE "'' @ database e @ ''" OWNER "'' @ user e @ ''"'';
                 w2 = log (EvExecute conn sql []) w1
             in case conn_execute d conn sql [] of
                  Inl x \<Rightarrow>
                    (if is_Exception x
                     then (Inl (OperationalError
                             (Str (''create database '' @ database e @ '', error: '' @ str_exn x))), w2)
                     else (Inl x, w2))
                | Inr _ \<Rightarrow>
                    (let w3 = log (EvClose conn) w2
                     in case conn_close d conn of
                          Some x \<Rightarrow> (Inl x, w3)
                        | None \<Rightarrow> (Inr (), w3))))\<close>

text \<open>
  \<open>_create_pool\<close>. The two handlers belong to one \<open>try\<close>: what \<open>db_create\<close> or the
  second \<open>create_pool\<close> raises inside the first handler is not seen by the second.
\<close>

definition engine_create_pool ::
  "driver \<Rightarrow> bool \<Rightarrow> engine \<Rightarrow> world \<Rightarrow> (exn + unit) \<times> engine \<times> world" where
  "engine_create_pool d create_db e w =
     (if engine.pool e \<noteq> None then (Inr (), e, w)
      else
        (let w1 = log EvCreatePool w
         in case create_pool d 0 of
              Inr p \<Rightarrow> (Inr (), e\<lparr>engine.pool := Some p\<rparr>, w1)
            | Inl x \<Rightarrow>
               (case x of
                  Asyncpg InvalidCatalogNameError _ \<Rightarrow>
                    (if create_db
                     then (case db_create d e w1 of
                             (Inl x1, w2) \<Rightarrow> (Inl x1, e, w2)
                           | (Inr _, w2) \<Rightarrow>
                              (let w3 = log EvCreatePool w2
                               in case create_pool d 1 of
                                    Inr p \<Rightarrow> (Inr (), e\<lparr>engine.pool := Some p\<rparr>, w3)
                                  | Inl x2 \<Rightarrow> (Inl x2, e, w3)))
                     else (Inr (), e, w1))
                | _ \<Rightarrow>
                    (Inl (DBConnectionError
                       (Str (''Can't establish connection to database '' @ database e))), e, w1))))"

definition init :: "driver \<Rightarrow> engine \<Rightarrow> world \<Rightarrow> (exn + unit) \<times> engine \<times> world" where
  "init d e w =
     (if engine.pool e = None then engine_create_pool d True e w else (Inr (), e, w))"

text \<open>
  \<open>_current_transacted_conn\<close>: the registry lookup under \<open>try\<close>; the lookup never
  raises, so the handler's \<open>None\<close> is the lookup's own.
\<close>

definition current_transacted_conn :: "engine \<Rightarrow> world \<Rightarrow> proxy option" where
  "current_transacted_conn e w = TransactedConnections_get (engine.name e) w"

text \<open>A proxy object is truthy, so \<open>if transacted_conn\<close> tests for \<open>Some\<close>.\<close>

definition in_transaction :: "engine \<Rightarrow> world \<Rightarrow> (exn + ctx) \<times> world" where
  "in_transaction e w =
     (case current_transacted_conn e w of
        Some _ \<Rightarrow> (Inl (PyException ''nested in_transaction not allowed.''), w)
      | None \<Rightarrow> (Inr (PooledTransactionContext (engine.name e) (engine.pool e) None), w))"

text \<open>
  What \<open>acquire_connection\<close> returns, to be entered by \<open>async with\<close>.
  Modelled from the spec: \<open>TransactedConnectionWrapper\<close> (declared in \<open>base.py\<close>, which
  is not part of the sources) hands out the bound connection on entry and leaves it
  alone on exit; the pool's own handle acquires on entry and releases on exit.
\<close>

datatype acquire_context =
    TransactedConnectionWrapper proxy
  | PoolAcquireContext pool "nat option"

text \<open>
  \<open>acquire_connection\<close> is a plain \<open>def\<close>. Its call \<open>self._create_pool()\<close> of a
  coroutine function has no \<open>await\<close>: it builds the coroutine object \<open>coro\<close> and drops
  it, so the body of \<open>_create_pool\<close> does not run.
\<close>

definition acquire_connection ::
  "driver \<Rightarrow> nat option \<Rightarrow> engine \<Rightarrow> world \<Rightarrow> (exn + acquire_context) \<times> engine \<times> world" where
  "acquire_connection d tmo e w =
     (let coro = (if engine.pool e = None then Some (engine_create_pool d True) else None)
      in case current_transacted_conn e w of
           Some transacted_conn \<Rightarrow> (Inr (TransactedConnectionWrapper transacted_conn), e, w)
         | None \<Rightarrow>
            (case engine.pool e of
               None \<Rightarrow> (Inl (AttributeError ''acquire''), e, w)
             | Some p \<Rightarrow> (Inr (PoolAcquireContext p tmo), e, w)))"

section \<open>Strings\<close>

text \<open>
  A character stands for a code point below 256. \<open>split_on\<close> is \<open>str.split(sep)\<close> with
  a one-character separator: it cuts at every occurrence and keeps empty pieces.
\<close>

definition startswith :: "string \<Rightarrow> string \<Rightarrow> bool" where
  "startswith s p = (take (length p) s = p)"

fun split_on :: "char \<Rightarrow> string \<Rightarrow> string list" where
  "split_on sep [] = [[]]"
| "split_on sep (c # cs) =
     (if c = sep then [] # split_on sep cs
      else (case split_on sep cs of
              [] \<Rightarrow> [[c]]
            | t # ts \<Rightarrow> (c # t) # ts))"

text \<open>\<open>xs[1]\<close>, which raises \<open>IndexError\<close> (here \<open>None\<close>) on fewer than two elements.\<close>

fun index1 :: "'a list \<Rightarrow> 'a option" where
  "index1 (_ # y # _) = Some y"
| "index1 _ = None"

text \<open>
  \<open>int(s)\<close> on a string, base ten: surrounding whitespace (the code points 9 to 13,
  32, 133 and 160) is dropped, one sign is allowed, then digits, with single underscores
  between digits. \<open>None\<close> is \<open>ValueError\<close>. The interpreter's optional limit on the number of digits is not
  modelled.
\<close>

definition py_isspace :: "char \<Rightarrow> bool" where
  "py_isspace c =
     (let n = (of_char c :: nat)
      in (9 \<le> n \<and> n \<le> 13) \<or> n = 32 \<or> n = 133 \<or> n = 160)"

definition strip :: "string \<Rightarrow> string" where
  "strip s = rev (dropWhile py_isspace (rev (dropWhile py_isspace s)))"

definition digit_val :: "char \<Rightarrow> nat option" where
  "digit_val c =
     (let n = (of_char c :: nat)
      in if 48 \<le> n \<and> n \<le> 57 then Some (n - 48) else None)"

fun digits_acc :: "nat \<Rightarrow> string \<Rightarrow> nat option" where
  "digits_acc acc [] = Some acc"
| "digits_acc acc [c] =
     (case digit_val c of None \<Rightarrow> None | Some v \<Rightarrow> Some (10 * acc + v))"
| "digits_acc acc (c # c' # cs) =
     (if c = CHR ''_''
      then (case digit_val c' of None \<Rightarrow> None | Some v \<Rightarrow> digits_acc (10 * acc + v) cs)
      else (case digit_val c of None \<Rightarrow> None | Some v \<Rightarrow> digits_acc (10 * acc + v) (c' # cs)))"

definition unsigned :: "string \<Rightarrow> nat option" where
  "unsigned s =
     (case s of
        [] \<Rightarrow> None
      | c # cs \<Rightarrow> (case digit_val c of None \<Rightarrow> None | Some v \<Rightarrow> digits_acc v cs))"

definition py_int :: "string \<Rightarrow> int option" where
  "py_int s =
     (case strip s of
        [] \<Rightarrow> None
      | c # cs \<Rightarrow>
          (if c = CHR ''-'' then map_option (\<lambda>n. - int n) (unsigned cs)
           else if c = CHR ''+'' then map_option int (unsigned cs)
           else map_option int (unsigned (c # cs))))"

section \<open>The query execution surface\<close>

text \<open>
  The handlers of the decorator \<open>translate_exceptions\<close>, in the order of the source,
  and the decorator itself: it wraps a method of the engine.
\<close>

fun handler :: "exn \<Rightarrow> exn" where
  "handler (Asyncpg SyntaxOrAccessError m) =
     OperationalError (Exc (Asyncpg SyntaxOrAccessError m))"
| "handler (Asyncpg IntegrityConstraintViolationError m) =
     IntegrityError (Exc (Asyncpg IntegrityConstraintViolationError m))"
| "handler (Asyncpg InvalidTransactionStateError m) =
     TransactionManagementError (Exc (Asyncpg InvalidTransactionStateError m))"
| "handler exc = exc"

definition translate_exceptions ::
  "(engine \<Rightarrow> world \<Rightarrow> (exn + 'a) \<times> engine \<times> world)
    \<Rightarrow> engine \<Rightarrow> world \<Rightarrow> (exn + 'a) \<times> engine \<times> world" where
  "translate_exceptions func e w =
     (case func e w of
        (Inl exc, e1, w1) \<Rightarrow> (Inl (handler exc), e1, w1)
      | (Inr v, e1, w1) \<Rightarrow> (Inr v, e1, w1))"

text \<open>
  \<open>async with ac as connection: body\<close> for the two things \<open>acquire_connection\<close> returns.
  The wrapper of a bound connection hands out that connection and releases nothing. The
  pool's handle acquires, and releases on exit whatever the body did; an exception of
  the release replaces the body's outcome.
\<close>

definition with_connection ::
  "driver \<Rightarrow> acquire_context \<Rightarrow> (connection \<Rightarrow> world \<Rightarrow> (exn + 'a) \<times> world)
    \<Rightarrow> world \<Rightarrow> (exn + 'a) \<times> world" where
  "with_connection d ac body w =
     (case ac of
        TransactedConnectionWrapper (TransactedConnectionProxy con) \<Rightarrow> body con w
      | PoolAcquireContext p tmo \<Rightarrow>
         (let w1 = log (EvAcquire p) w
          in case pool_acquire d p of
               Inl x \<Rightarrow> (Inl x, w1)
             | Inr con \<Rightarrow>
                (case body con w1 of
                   (r, w2) \<Rightarrow>
                     (let w3 = log (EvRelease p (Some con)) w2
                      in case pool_release d p con of
                           Some x \<Rightarrow> (Inl x, w3)
                         | None \<Rightarrow> (r, w3)))))"

text \<open>
  \<open>async with self.acquire_connection() as connection: body\<close>, as every operation
  starts.
\<close>

definition with_acquired ::
  "driver \<Rightarrow> (connection \<Rightarrow> world \<Rightarrow> (exn + 'a) \<times> world)
    \<Rightarrow> engine \<Rightarrow> world \<Rightarrow> (exn + 'a) \<times> engine \<times> world" where
  "with_acquired d body e w =
     (case acquire_connection d None e w of
        (Inl x, e1, w1) \<Rightarrow> (Inl x, e1, w1)
      | (Inr ac, e1, w1) \<Rightarrow>
         (case with_connection d ac body w1 of (r, w2) \<Rightarrow> (r, e1, w2)))"

text \<open>
  \<open>async with connection.transaction(): body\<close>, the driver's own transaction block:
  start, then commit after a normal body and rollback after a raising one; what the
  start, the commit or the rollback raises leaves the block.
\<close>

definition with_transaction ::
  "driver \<Rightarrow> connection \<Rightarrow> (world \<Rightarrow> (exn + 'a) \<times> world) \<Rightarrow> world \<Rightarrow> (exn + 'a) \<times> world" where
  "with_transaction d con body w =
     (let w1 = log (EvTxStart con) (log (EvTxNew con) w)
      in case tx_start d con of
           Some x \<Rightarrow> (Inl x, w1)
         | None \<Rightarrow>
            (case body w1 of
               (Inl x, w2) \<Rightarrow>
                 (case tx_rollback d con of
                    Some x' \<Rightarrow> (Inl x', log (EvTxRollback con) w2)
                  | None \<Rightarrow> (Inl x, log (EvTxRollback con) w2))
             | (Inr v, w2) \<Rightarrow>
                 (case tx_commit d con of
                    Some x' \<Rightarrow> (Inl x', log (EvTxCommit con) w2)
                  | None \<Rightarrow> (Inr v, log (EvTxCommit con) w2))))"

text \<open>The five operations: first the decorated function, then the decorated method.\<close>

definition execute_insert_func ::
  "driver \<Rightarrow> string \<Rightarrow> pyval list \<Rightarrow> engine \<Rightarrow> world
    \<Rightarrow> (exn + record_row option) \<times> engine \<times> world" where
  "execute_insert_func d query vals =
     with_acquired d (\<lambda>connection w.
       (conn_fetchrow d connection query vals, log (EvFetchRow connection query vals) w))"

definition execute_insert ::
  "driver \<Rightarrow> string \<Rightarrow> pyval list \<Rightarrow> engine \<Rightarrow> world
    \<Rightarrow> (exn + record_row option) \<times> engine \<times> world" where
  "execute_insert d query vals = translate_exceptions (execute_insert_func d query vals)"

definition execute_many_func ::
  "driver \<Rightarrow> string \<Rightarrow> pyval list list \<Rightarrow> engine \<Rightarrow> world
    \<Rightarrow> (exn + unit) \<times> engine \<times> world" where
  "execute_many_func d query vals =
     with_acquired d (\<lambda>connection.
       with_transaction d connection (\<lambda>w.
         (case conn_executemany d connection query vals of
            Some x \<Rightarrow> Inl x
          | None \<Rightarrow> Inr (),
          log (EvExecuteMany connection query vals) w)))"

definition execute_many ::
  "driver \<Rightarrow> string \<Rightarrow> pyval list list \<Rightarrow> engine \<Rightarrow> world
    \<Rightarrow> (exn + unit) \<times> engine \<times> world" where
  "execute_many d query vals = translate_exceptions (execute_many_func d query vals)"

text \<open>
  Lines 189 to 192: the count of affected rows, read from the driver's status string;
  \<open>IndexError\<close> and \<open>ValueError\<close> are caught and give 0.
\<close>

definition rows_affected :: "string \<Rightarrow> int" where
  "rows_affected res =
     (case index1 (split_on CHR '' '' res) of
        None \<Rightarrow> 0
      | Some tok \<Rightarrow> (case py_int tok of None \<Rightarrow> 0 | Some n \<Rightarrow> n))"

text \<open>\<open>values\<close> is an optional list; \<open>None\<close> and the empty list are falsy.\<close>

definition params_of :: "pyval list option \<Rightarrow> pyval list" where
  "params_of vals =
     (case vals of
        None \<Rightarrow> []
      | Some vs \<Rightarrow> (if vs \<noteq> [] then vs else []))"

definition execute_query_func ::
  "driver \<Rightarrow> string \<Rightarrow> pyval list option \<Rightarrow> engine \<Rightarrow> world
    \<Rightarrow> (exn + int \<times> record_row list) \<times> engine \<times> world" where
  "execute_query_func d query vals =
     with_acquired d (\<lambda>connection w.
       (let params = params_of vals
        in if startswith query ''UPDATE'' \<or> startswith query ''DELETE''
           then (case conn_execute d connection query params of
                   Inl x \<Rightarrow> (Inl x, log (EvExecute connection query params) w)
                 | Inr res \<Rightarrow>
                     (Inr (rows_affected res, []), log (EvExecute connection query params) w))
           else (case conn_fetch d connection query params of
                   Inl x \<Rightarrow> (Inl x, log (EvFetch connection query params) w)
                 | Inr rows \<Rightarrow>
                     (Inr (int (length rows), rows), log (EvFetch connection query params) w))))"

definition execute_query ::
  "driver \<Rightarrow> string \<Rightarrow> pyval list option \<Rightarrow> engine \<Rightarrow> world
    \<Rightarrow> (exn + int \<times> record_row list) \<times> engine \<times> world" where
  "execute_query d query vals = translate_exceptions (execute_query_func d query vals)"

text \<open>\<open>dict(row)\<close>: of two columns with one name, the later one stays.\<close>

definition dict :: "record_row \<Rightarrow> (string, pyval) mapping" where
  "dict r = Mapping.of_alist (rev r)"

definition execute_query_dict_func ::
  "driver \<Rightarrow> string \<Rightarrow> pyval list option \<Rightarrow> engine \<Rightarrow> world
    \<Rightarrow> (exn + (string, pyval) mapping list) \<times> engine \<times> world" where
  "execute_query_dict_func d query vals =
     with_acquired d (\<lambda>connection w.
       (let params = params_of vals
        in case conn_fetch d connection query params of
             Inl x \<Rightarrow> (Inl x, log (EvFetch connection query params) w)
           | Inr rows \<Rightarrow> (Inr (map dict rows), log (EvFetch connection query params) w)))"

definition execute_query_dict ::
  "driver \<Rightarrow> string \<Rightarrow> pyval list option \<Rightarrow> engine \<Rightarrow> world
    \<Rightarrow> (exn + (string, pyval) mapping list) \<times> engine \<times> world" where
  "execute_query_dict d query vals =
     translate_exceptions (execute_query_dict_func d query vals)"

definition execute_script_func ::
  "driver \<Rightarrow> string \<Rightarrow> engine \<Rightarrow> world \<Rightarrow> (exn + unit) \<times> engine \<times> world" where
  "execute_script_func d query =
     with_acquired d (\<lambda>connection w.
       (case conn_execute d connection query [] of
          Inl x \<Rightarrow> Inl x
        | Inr _ \<Rightarrow> Inr (),
        log (EvExecute connection query []) w))"

definition execute_script ::
  "driver \<Rightarrow> string \<Rightarrow> engine \<Rightarrow> world \<Rightarrow> (exn + unit) \<times> engine \<times> world" where
  "execute_script d query = translate_exceptions (execute_script_func d query)"

text \<open>
  The connection an operation of the engine works on: the one bound in the registry
  under the engine's name or, without a binding, the one the engine's pool hands out,
  with a release on exit that does not raise.
\<close>

definition serves :: "driver \<Rightarrow> engine \<Rightarrow> world \<Rightarrow> connection \<Rightarrow> bool" where
  "serves d e w con =
     (case registry w (engine.name e) of
        Some (TransactedConnectionProxy c) \<Rightarrow> c = con
      | None \<Rightarrow>
         (case engine.pool e of
            None \<Rightarrow> False
          | Some p \<Rightarrow> pool_acquire d p = Inr con \<and> pool_release d p con = None))"

text \<open>
  Following the claim's words, for comparison with \<open>rows_affected\<close>: the tokens of a
  string delimited by whitespace (runs of whitespace separate, and none of the tokens
  is empty), and the count read from the second of them, 0 when there is none or it is
  not an integer.
\<close>

definition spec_whitespace :: "char \<Rightarrow> bool" where
  "spec_whitespace c = (let n = (of_char c :: nat) in (9 \<le> n \<and> n \<le> 13) \<or> n = 32)"

fun tokens_from :: "string \<Rightarrow> string \<Rightarrow> string list" where
  "tokens_from cur [] = (if cur = [] then [] else [cur])"
| "tokens_from cur (c # cs) =
     (if spec_whitespace c
      then (if cur = [] then tokens_from [] cs else cur # tokens_from [] cs)
      else tokens_from (cur @ [c]) cs)"

definition whitespace_tokens :: "string \<Rightarrow> string list" where
  "whitespace_tokens s = tokens_from [] s"

definition spec_rows_affected :: "string \<Rightarrow> int" where
  "spec_rows_affected res =
     (case index1 (whitespace_tokens res) of
        None \<Rightarrow> 0
      | Some tok \<Rightarrow> (case py_int tok of None \<Rightarrow> 0 | Some n \<Rightarrow> n))"

section \<open>Calls on a context, in any order\<close>

text \<open>
  A context that holds a connection or is done. \<open>calls\<close> applies any sequence of
  \<open>__aenter__\<close> and \<open>__aexit__\<close> calls to a context, each against a driver of its own,
  whatever the calls return.
\<close>

definition used :: "ctx \<Rightarrow> bool" where
  "used c = (connection c \<noteq> None \<or> is_done c)"

datatype ctx_call = Enter | Exit "exn option"

fun call :: "driver \<Rightarrow> ctx_call \<Rightarrow> ctx \<times> world \<Rightarrow> ctx \<times> world" where
  "call d Enter (c, w) = snd (aenter d c w)"
| "call d (Exit exc) (c, w) = snd (aexit d exc c w)"

fun calls :: "(driver \<times> ctx_call) list \<Rightarrow> ctx \<times> world \<Rightarrow> ctx \<times> world" where
  "calls [] s = s"
| "calls ((d, k) # ks) s = calls ks (call d k s)"

section \<open>Concrete objects for evaluation\<close>

definition engine0 :: engine where
  "engine0 = \<lparr>engine.name = ''default'', user = ''postgres'', database = ''test_db'',
              engine.pool = Some (Pool 0)\<rparr>"

definition world0 :: world where
  "world0 = \<lparr>registry = Map.empty, trace = []\<rparr>"

definition world_bound :: world where
  "world_bound =
     \<lparr>registry = [''default'' \<mapsto> TransactedConnectionProxy (Connection 7)], trace = []\<rparr>"

definition driver_ok :: driver where
  "driver_ok =
     \<lparr>create_pool = (\<lambda>n. Inr (Pool 0)), connect = Inr (Connection 99),
      pool_acquire = (\<lambda>p. Inr (Connection 7)), pool_release = (\<lambda>p c. None),
      tx_start = (\<lambda>c. None), tx_commit = (\<lambda>c. None), tx_rollback = (\<lambda>c. None),
      conn_execute = (\<lambda>c q ps. Inr ''UPDATE 3''), conn_executemany = (\<lambda>c q ps. None),
      conn_fetch = (\<lambda>c q ps. Inr []), conn_fetchrow = (\<lambda>c q ps. Inr None),
      conn_close = (\<lambda>c. None)\<rparr>"

definition driver_commit_fails :: driver where
  "driver_commit_fails =
     driver_ok\<lparr>tx_commit := (\<lambda>c. Some (Asyncpg OtherPostgresError ''commit failed''))\<rparr>"

definition driver_rollback_fails :: driver where
  "driver_rollback_fails =
     driver_ok\<lparr>tx_rollback := (\<lambda>c. Some (Asyncpg OtherPostgresError ''rollback failed''))\<rparr>"

definition ctx0 :: ctx where
  "ctx0 = PooledTransactionContext ''default'' (Some (Pool 0)) None"

definition ctx_active :: ctx where
  "ctx_active = ctx0\<lparr>connection := Some (Connection 7),
     transaction := Some (Transaction (Connection 7)), token := Some (Token None)\<rparr>"

definition world_active :: world where
  "world_active =
     \<lparr>registry = [''default'' \<mapsto> TransactedConnectionProxy (Connection 7)],
      trace = [EvAcquire (Pool 0), EvTxNew (Connection 7),
               EvRegistrySet ''default'' (TransactedConnectionProxy (Connection 7)),
               EvTxStart (Connection 7)]\<rparr>"

definition engine_nopool :: engine where
  "engine_nopool = engine0\<lparr>engine.pool := None\<rparr>"

definition driver_no_db :: driver where
  "driver_no_db =
     driver_ok\<lparr>create_pool :=
       (\<lambda>n. if n = 0 then Inl (Asyncpg InvalidCatalogNameError ''database does not exist'')
            else Inr (Pool 0))\<rparr>"

definition driver_create_fails :: driver where
  "driver_create_fails =
     driver_ok\<lparr>conn_execute := (\<lambda>c q ps. Inl (Asyncpg OtherPostgresError ''permission denied''))\<rparr>"

definition body_raises :: "proxy \<Rightarrow> world \<Rightarrow> (exn + unit) \<times> world" where
  "body_raises p w = (Inl (PyException ''boom''), w)"

definition body_returns :: "proxy \<Rightarrow> world \<Rightarrow> (exn + unit) \<times> world" where
  "body_returns p w = (Inr (), w)"

definition driver_rows :: driver where
  "driver_rows =
     driver_ok\<lparr>conn_fetch :=
       (\<lambda>c q ps. Inr [[(''id'', PInt 1)], [(''id'', PInt 2)]])\<rparr>"

definition driver_bad_status :: driver where
  "driver_bad_status = driver_ok\<lparr>conn_execute := (\<lambda>c q ps. Inr ''UPDATE'')\<rparr>"

definition driver_syntax_error :: driver where
  "driver_syntax_error =
     driver_ok\<lparr>conn_fetchrow :=
       (\<lambda>c q ps. Inl (Asyncpg SyntaxOrAccessError ''syntax error''))\<rparr>"

definition driver_release_fails :: driver where
  "driver_release_fails =
     driver_ok\<lparr>pool_release := (\<lambda>p c. Some (InterfaceError ''release failed''))\<rparr>"

definition driver_two_spaces :: driver where
  "driver_two_spaces = driver_ok\<lparr>conn_execute := (\<lambda>c q ps. Inr ''UPDATE  3'')\<rparr>"

definition driver_integrity :: driver where
  "driver_integrity =
     driver_ok\<lparr>conn_executemany :=
       (\<lambda>c q ps. Some (Asyncpg IntegrityConstraintViolationError ''duplicate key''))\<rparr>"

definition driver_tx_state :: driver where
  "driver_tx_state =
     driver_ok\<lparr>conn_execute :=
       (\<lambda>c q ps. Inl (Asyncpg InvalidTransactionStateError ''no active transaction''))\<rparr>"

definition driver_acquire_fails :: driver where
  "driver_acquire_fails =
     driver_ok\<lparr>pool_acquire := (\<lambda>p. Inl (InterfaceError ''pool is closed''))\<rparr>"

definition raises_TransactionManagementError :: "exn + 'a \<Rightarrow> bool" where
  "raises_TransactionManagementError r =
     (case r of Inl x \<Rightarrow> is_TransactionManagementError x | Inr _ \<Rightarrow> False)"

section \<open>The nested-transaction guard\<close>

text \<open>
  C1, as stated, fails: with a binding for the engine's name in the registry,
  \<open>in_transaction\<close> raises the plain \<open>Exception('nested in_transaction not allowed.')\<close>,
  which is not of the class \<open>TransactionManagementError\<close>.
\<close>

theorem in_transaction_nested_counterexample:
  "\<not> raises_TransactionManagementError (fst (in_transaction engine0 world_bound))"
  by (simp add: raises_TransactionManagementError_def in_transaction_def
      current_transacted_conn_def TransactedConnections_get_def engine0_def world_bound_def)

text \<open>
  C1, amended: for every logical database name, calling \<open>in_transaction\<close> while the
  registry holds a binding for that name fails at once with a plain \<open>Exception\<close>
  (message \<open>nested in_transaction not allowed.\<close>), no context object is created, and
  registry and trace are left as they were: the name is still bound to the same
  handle, and \<open>acquire_connection\<close> still hands out that handle.
\<close>

theorem in_transaction_nested:
  assumes "registry w (engine.name e) = Some p"
  shows "in_transaction e w = (Inl (PyException ''nested in_transaction not allowed.''), w)
       \<and> registry (snd (in_transaction e w)) (engine.name e) = Some p
       \<and> fst (acquire_connection d tmo e (snd (in_transaction e w)))
           = Inr (TransactedConnectionWrapper p)"
  using assms
  by (simp add: in_transaction_def acquire_connection_def current_transacted_conn_def
      TransactedConnections_get_def)

theorem in_transaction_nested_witness:
  "registry world_bound (engine.name engine0) = Some (TransactedConnectionProxy (Connection 7))
   \<and> in_transaction engine0 world_bound
       = (Inl (PyException ''nested in_transaction not allowed.''), world_bound)"
proof -
  have h: "registry world_bound (engine.name engine0)
             = Some (TransactedConnectionProxy (Connection 7))"
    by (simp add: world_bound_def engine0_def)
  show ?thesis
    using h in_transaction_nested [OF h] by simp
qed

section \<open>Entering and leaving a context\<close>

lemma aenter_success:
  assumes "connection c = None" "\<not> is_done c" "ctx.pool c = Some pl"
    "pool_acquire d pl = Inr con" "tx_start d con = None"
  shows "aenter d c w =
      (Inr (TransactedConnectionProxy con),
       c\<lparr>connection := Some con, transaction := Some (Transaction con),
         token := Some (Token (registry w (ctx.name c)))\<rparr>,
       \<lparr>registry = (registry w)(ctx.name c \<mapsto> TransactedConnectionProxy con),
        trace = trace w @ [EvAcquire pl, EvTxNew con,
                  EvRegistrySet (ctx.name c) (TransactedConnectionProxy con), EvTxStart con]\<rparr>)"
  using assms
  by (simp add: aenter_def TransactedConnections_set_def log_def Let_def)

lemma aenter_ok0:
  "aenter driver_ok ctx0 world0
     = (Inr (TransactedConnectionProxy (Connection 7)), ctx_active, world_active)"
  by (simp add: aenter_def TransactedConnections_set_def log_def Let_def driver_ok_def
      ctx0_def world0_def ctx_active_def world_active_def PooledTransactionContext_def)

lemma aenter_used:
  "used c \<Longrightarrow> aenter d c w = (Inl (PyException ''a connection is already acquired''), c, w)"
  by (auto simp: used_def aenter_def)

lemma aenter_establishes_used: "aenter d c w = (Inr p, c1, w1) \<Longrightarrow> used c1"
  by (auto simp: used_def aenter_def Let_def TransactedConnections_set_def
      split: if_splits option.splits sum.splits prod.splits)

lemma aenter_keeps_used: "used c \<Longrightarrow> used (fst (snd (aenter d c w)))"
  by (simp add: aenter_used)

lemma cleanup_used: "used (fst (snd (cleanup d c w)))"
  by (auto simp: used_def cleanup_def Let_def split: option.splits)

lemma aexit_keeps_used: "used c \<Longrightarrow> used (fst (snd (aexit d exc c w)))"
  by (auto simp: aexit_def cleanup_used split: prod.splits option.splits)

lemma call_keeps_used: "used (fst s) \<Longrightarrow> used (fst (call d k s))"
  by (cases s; cases k) (simp_all add: aenter_keeps_used aexit_keeps_used)

lemma calls_keep_used: "used (fst s) \<Longrightarrow> used (fst (calls ks s))"
proof (induction ks arbitrary: s)
  case Nil
  then show ?case by simp
next
  case (Cons a ks)
  obtain d k where a: "a = (d, k)" by (cases a)
  from Cons.prems have "used (fst (call d k s))" by (rule call_keeps_used)
  then show ?case unfolding a by (simp add: Cons.IH)
qed

lemma aexit_after_raise:
  assumes "transaction c = Some (Transaction con)" "token c = Some tok"
    "ctx.pool c = Some pl" "connection c = Some cn"
  shows "aexit d (Some x) c w =
     ((case pool_release d pl cn of Some e \<Rightarrow> Inl e | None \<Rightarrow> Inr ()),
      c\<lparr>is_done := True, connection := None\<rparr>,
      log (EvRelease pl (Some cn))
        (TransactedConnections_reset (ctx.name c) tok (log (EvTxRollback con) w)))"
  using assms
  by (simp add: aexit_def end_transaction_def cleanup_def Let_def split: option.splits)

lemma aexit_after_commit:
  assumes "transaction c = Some (Transaction con)" "token c = Some tok"
    "ctx.pool c = Some pl" "connection c = Some cn" "tx_commit d con = None"
  shows "aexit d None c w =
     ((case pool_release d pl cn of Some e \<Rightarrow> Inl e | None \<Rightarrow> Inr ()),
      c\<lparr>is_done := True, connection := None\<rparr>,
      log (EvRelease pl (Some cn))
        (TransactedConnections_reset (ctx.name c) tok (log (EvTxCommit con) w)))"
  using assms
  by (simp add: aexit_def end_transaction_def cleanup_def Let_def split: option.splits)

lemma aexit_commit_raises:
  assumes "transaction c = Some (Transaction con)" "tx_commit d con = Some x"
  shows "aexit d None c w = (Inl x, c, log (EvTxCommit con) w)"
  using assms by (simp add: aexit_def end_transaction_def)

lemma trace_log: "trace (log ev w) = trace w @ [ev]"
  by (simp add: log_def)

lemma trace_reset: "trace (TransactedConnections_reset n t w) = trace w @ [EvRegistryReset n]"
  by (cases t) (simp add: TransactedConnections_reset_def log_def)

text \<open>
  C2, evaluated where it fails: the body completed normally and the commit raises.
  \<open>__aexit__\<close> raises the commit's exception from line 60 and none of the exit
  actions of lines 61 to 65 runs: the context is not marked done, it still holds the
  connection, the registry still binds the name to the proxy, there is no reset of the
  registry and no release to the pool.
\<close>

theorem aexit_commit_failure_leaks:
  "aexit driver_commit_fails None ctx_active world_active
     = (Inl (Asyncpg OtherPostgresError ''commit failed''), ctx_active,
        log (EvTxCommit (Connection 7)) world_active)
   \<and> \<not> is_done ctx_active
   \<and> connection ctx_active = Some (Connection 7)
   \<and> registry (log (EvTxCommit (Connection 7)) world_active) ''default''
       = Some (TransactedConnectionProxy (Connection 7))
   \<and> EvRegistryReset ''default'' \<notin> set (trace (log (EvTxCommit (Connection 7)) world_active))
   \<and> EvRelease (Pool 0) (Some (Connection 7))
       \<notin> set (trace (log (EvTxCommit (Connection 7)) world_active))"
  by (simp add: aexit_def end_transaction_def driver_commit_fails_def driver_ok_def
      ctx_active_def ctx0_def PooledTransactionContext_def world_active_def log_def)

text \<open>
  C8, as stated, fails: the claim puts the start of the transaction before the wrapping
  and the publication. On a fresh context the calls are: acquire, create the transaction
  object, publish the proxy in the registry, and only then start the transaction.
\<close>

theorem aenter_order_counterexample:
  "trace (snd (snd (aenter driver_ok ctx0 world0)))
     = [EvAcquire (Pool 0), EvTxNew (Connection 7),
        EvRegistrySet ''default'' (TransactedConnectionProxy (Connection 7)),
        EvTxStart (Connection 7)]"
  by (simp add: aenter_ok0 world_active_def)

text \<open>
  C8, amended: on entering an idle context whose pool hands out a connection and whose
  transaction starts, the steps occur in this order: the connection is acquired from the
  pool, a transaction object is created on it, the connection is wrapped in a proxy,
  the proxy is published into the registry under the logical name, and then the
  transaction is started. The proxy is what is returned, and the binding is in place
  when the body begins: \<open>acquire_connection\<close> of an engine of that name hands out a
  wrapper of this proxy.
\<close>

theorem aenter_order:
  assumes "connection c = None" "\<not> is_done c" "ctx.pool c = Some pl"
    "pool_acquire d pl = Inr con" "tx_start d con = None"
  shows "fst (aenter d c w) = Inr (TransactedConnectionProxy con)
       \<and> trace (snd (snd (aenter d c w)))
           = trace w @ [EvAcquire pl, EvTxNew con,
               EvRegistrySet (ctx.name c) (TransactedConnectionProxy con), EvTxStart con]
       \<and> registry (snd (snd (aenter d c w))) (ctx.name c) = Some (TransactedConnectionProxy con)
       \<and> (engine.name e = ctx.name c \<longrightarrow>
            fst (acquire_connection d tmo e (snd (snd (aenter d c w))))
              = Inr (TransactedConnectionWrapper (TransactedConnectionProxy con)))"
  by (simp add: aenter_success [OF assms] acquire_connection_def current_transacted_conn_def
      TransactedConnections_get_def)

theorem aenter_order_witness:
  "connection ctx0 = None \<and> \<not> is_done ctx0 \<and> ctx.pool ctx0 = Some (Pool 0)
   \<and> pool_acquire driver_ok (Pool 0) = Inr (Connection 7)
   \<and> tx_start driver_ok (Connection 7) = None
   \<and> engine.name engine0 = ctx.name ctx0
   \<and> fst (aenter driver_ok ctx0 world0) = Inr (TransactedConnectionProxy (Connection 7))
   \<and> fst (acquire_connection driver_ok None engine0 (snd (snd (aenter driver_ok ctx0 world0))))
       = Inr (TransactedConnectionWrapper (TransactedConnectionProxy (Connection 7)))"
proof -
  have h1: "connection ctx0 = None" by (simp add: ctx0_def PooledTransactionContext_def)
  have h2: "\<not> is_done ctx0" by (simp add: ctx0_def PooledTransactionContext_def)
  have h3: "ctx.pool ctx0 = Some (Pool 0)" by (simp add: ctx0_def PooledTransactionContext_def)
  have h4: "pool_acquire driver_ok (Pool 0) = Inr (Connection 7)" by (simp add: driver_ok_def)
  have h5: "tx_start driver_ok (Connection 7) = None" by (simp add: driver_ok_def)
  have h6: "engine.name engine0 = ctx.name ctx0"
    by (simp add: engine0_def ctx0_def PooledTransactionContext_def)
  note r = aenter_order [OF h1 h2 h3 h4 h5, of world0 engine0 None]
  from r h6 have
    "fst (acquire_connection driver_ok None engine0 (snd (snd (aenter driver_ok ctx0 world0))))
       = Inr (TransactedConnectionWrapper (TransactedConnectionProxy (Connection 7)))"
    by blast
  moreover from r have
    "fst (aenter driver_ok ctx0 world0) = Inr (TransactedConnectionProxy (Connection 7))"
    by blast
  ultimately show ?thesis using h1 h2 h3 h4 h5 h6 by blast
qed

text \<open>
  C9: entering a context that holds a connection or is done raises the internal error
  and changes nothing. So a context is entered at most once: after an entry that
  succeeded (which needs a context that held no connection and was not done, and leaves
  it holding one), whatever calls of \<open>__aenter__\<close> and \<open>__aexit__\<close> follow, with
  whatever outcome, every further entry raises that error.
\<close>

theorem enter_once:
  "(connection c \<noteq> None \<or> is_done c
      \<longrightarrow> aenter d c w = (Inl (PyException ''a connection is already acquired''), c, w))
   \<and> (aenter d c w = (Inr p, c1, w1)
      \<longrightarrow> connection c = None \<and> \<not> is_done c \<and> connection c1 \<noteq> None
        \<and> fst (aenter d' (fst (calls ks (c1, w1))) (snd (calls ks (c1, w1))))
            = Inl (PyException ''a connection is already acquired''))"
proof (intro conjI impI)
  assume "connection c \<noteq> None \<or> is_done c"
  then show "aenter d c w = (Inl (PyException ''a connection is already acquired''), c, w)"
    by (simp add: aenter_used used_def)
next
  assume a: "aenter d c w = (Inr p, c1, w1)"
  then show "connection c = None" by (auto simp: aenter_def split: if_splits)
  from a show "\<not> is_done c" by (auto simp: aenter_def split: if_splits)
  from a show "connection c1 \<noteq> None"
    by (auto simp: aenter_def Let_def TransactedConnections_set_def
        split: if_splits option.splits sum.splits prod.splits)
  from a have "used c1" by (rule aenter_establishes_used)
  then have "used (fst (calls ks (c1, w1)))" using calls_keep_used [of "(c1, w1)" ks] by simp
  then show "fst (aenter d' (fst (calls ks (c1, w1))) (snd (calls ks (c1, w1))))
            = Inl (PyException ''a connection is already acquired'')"
    by (simp add: aenter_used)
qed

theorem enter_once_witness:
  "aenter driver_ok ctx0 world0
     = (Inr (TransactedConnectionProxy (Connection 7)), ctx_active, world_active)
   \<and> connection ctx_active \<noteq> None
   \<and> aenter driver_ok ctx_active world_active
       = (Inl (PyException ''a connection is already acquired''), ctx_active, world_active)
   \<and> fst (aenter driver_ok (fst (calls [(driver_ok, Exit None)] (ctx_active, world_active)))
        (snd (calls [(driver_ok, Exit None)] (ctx_active, world_active))))
       = Inl (PyException ''a connection is already acquired'')"
proof -
  have c: "connection ctx_active \<noteq> None" by (simp add: ctx_active_def)
  have 1: "aenter driver_ok ctx_active world_active
             = (Inl (PyException ''a connection is already acquired''), ctx_active, world_active)"
    using c enter_once [of ctx_active driver_ok world_active] by blast
  have 2: "fst (aenter driver_ok (fst (calls [(driver_ok, Exit None)] (ctx_active, world_active)))
        (snd (calls [(driver_ok, Exit None)] (ctx_active, world_active))))
       = Inl (PyException ''a connection is already acquired'')"
    using aenter_ok0 enter_once [of ctx0 driver_ok world0
        "TransactedConnectionProxy (Connection 7)" ctx_active world_active]
    by blast
  show ?thesis
    using aenter_ok0 c 1 2 by blast
qed

lemma aenter_rollback_irrelevant: "aenter (d\<lparr>tx_rollback := rb\<rparr>) c w = aenter d c w"
  by (simp add: aenter_def Let_def split: option.splits sum.splits prod.splits)

lemma exit_after_raise:
  assumes "connection c = None" "\<not> is_done c" "ctx.pool c = Some pl"
    "pool_acquire d pl = Inr con" "tx_start d con = None"
    "body (TransactedConnectionProxy con) (snd (snd (aenter d c w))) = (Inl x, w2)"
  shows "fst (async_with d c body w)
           = (case pool_release d pl con of None \<Rightarrow> Inl x | Some e \<Rightarrow> Inl e)"
    and "EvTxRollback con \<in> set (trace (snd (snd (async_with d c body w))))"
proof -
  let ?c1 = "c\<lparr>connection := Some con, transaction := Some (Transaction con),
         token := Some (Token (registry w (ctx.name c)))\<rparr>"
  note en = aenter_success [OF assms(1-5), of w]
  have ex: "aexit d (Some x) ?c1 w2 =
       ((case pool_release d pl con of Some e \<Rightarrow> Inl e | None \<Rightarrow> Inr ()),
        ?c1\<lparr>is_done := True, connection := None\<rparr>,
        log (EvRelease pl (Some con))
          (TransactedConnections_reset (ctx.name ?c1) (Token (registry w (ctx.name c)))
             (log (EvTxRollback con) w2)))"
    using assms(3) by (simp add: aexit_after_raise [where con = con and pl = pl and cn = con])
  from assms(6) en have b: "body (TransactedConnectionProxy con)
        \<lparr>registry = (registry w)(ctx.name c \<mapsto> TransactedConnectionProxy con),
        trace = trace w @ [EvAcquire pl, EvTxNew con,
                  EvRegistrySet (ctx.name c) (TransactedConnectionProxy con), EvTxStart con]\<rparr>
         = (Inl x, w2)"
    by simp
  show "fst (async_with d c body w)
           = (case pool_release d pl con of None \<Rightarrow> Inl x | Some e \<Rightarrow> Inl e)"
    by (simp add: async_with_def en b ex split: option.splits)
  show "EvTxRollback con \<in> set (trace (snd (snd (async_with d c body w))))"
    by (simp add: async_with_def en b ex trace_log trace_reset split: option.splits)
qed

lemma exit_after_return:
  assumes "connection c = None" "\<not> is_done c" "ctx.pool c = Some pl"
    "pool_acquire d pl = Inr con" "tx_start d con = None"
    "body (TransactedConnectionProxy con) (snd (snd (aenter d c w))) = (Inr v, w2)"
  shows "fst (async_with d c body w)
           = (case tx_commit d con of
                Some e \<Rightarrow> Inl e
              | None \<Rightarrow> (case pool_release d pl con of None \<Rightarrow> Inr v | Some e \<Rightarrow> Inl e))"
    and "EvTxCommit con \<in> set (trace (snd (snd (async_with d c body w))))"
proof -
  let ?c1 = "c\<lparr>connection := Some con, transaction := Some (Transaction con),
         token := Some (Token (registry w (ctx.name c)))\<rparr>"
  note en = aenter_success [OF assms(1-5), of w]
  from assms(6) en have b: "body (TransactedConnectionProxy con)
        \<lparr>registry = (registry w)(ctx.name c \<mapsto> TransactedConnectionProxy con),
        trace = trace w @ [EvAcquire pl, EvTxNew con,
                  EvRegistrySet (ctx.name c) (TransactedConnectionProxy con), EvTxStart con]\<rparr>
         = (Inr v, w2)"
    by simp
  show "fst (async_with d c body w)
           = (case tx_commit d con of
                Some e \<Rightarrow> Inl e
              | None \<Rightarrow> (case pool_release d pl con of None \<Rightarrow> Inr v | Some e \<Rightarrow> Inl e))"
  proof (cases "tx_commit d con")
    case None
    have ex: "aexit d None ?c1 w2 =
       ((case pool_release d pl con of Some e \<Rightarrow> Inl e | None \<Rightarrow> Inr ()),
        ?c1\<lparr>is_done := True, connection := None\<rparr>,
        log (EvRelease pl (Some con))
          (TransactedConnections_reset (ctx.name ?c1) (Token (registry w (ctx.name c)))
             (log (EvTxCommit con) w2)))"
      using None assms(3)
      by (simp add: aexit_after_commit [where con = con and pl = pl and cn = con])
    show ?thesis by (simp add: async_with_def en b ex None split: option.splits)
  next
    case (Some e)
    have ex: "aexit d None ?c1 w2 = (Inl e, ?c1, log (EvTxCommit con) w2)"
      using Some by (simp add: aexit_commit_raises [where con = con])
    show ?thesis by (simp add: async_with_def en b ex Some)
  qed
  show "EvTxCommit con \<in> set (trace (snd (snd (async_with d c body w))))"
  proof (cases "tx_commit d con")
    case None
    have ex: "aexit d None ?c1 w2 =
       ((case pool_release d pl con of Some e \<Rightarrow> Inl e | None \<Rightarrow> Inr ()),
        ?c1\<lparr>is_done := True, connection := None\<rparr>,
        log (EvRelease pl (Some con))
          (TransactedConnections_reset (ctx.name ?c1) (Token (registry w (ctx.name c)))
             (log (EvTxCommit con) w2)))"
      using None assms(3)
      by (simp add: aexit_after_commit [where con = con and pl = pl and cn = con])
    show ?thesis
      by (simp add: async_with_def en b ex trace_log trace_reset split: option.splits)
  next
    case (Some e)
    have ex: "aexit d None ?c1 w2 = (Inl e, ?c1, log (EvTxCommit con) w2)"
      using Some by (simp add: aexit_commit_raises [where con = con])
    show ?thesis by (simp add: async_with_def en b ex trace_log)
  qed
qed

text \<open>
  C7, as stated, fails: the body raises, the rollback is swallowed, and then the release
  of the connection to the pool (line 65, unguarded) raises. The exception that leaves
  the \<open>async with\<close> block is the release's, not the body's.
\<close>

theorem exit_outcome_counterexample:
  "fst (body_raises (TransactedConnectionProxy (Connection 7))
          (snd (snd (aenter driver_release_fails ctx0 world0))))
     = Inl (PyException ''boom'')
   \<and> fst (async_with driver_release_fails ctx0 body_raises world0)
       = Inl (InterfaceError ''release failed'')
   \<and> fst (async_with driver_release_fails ctx0 body_raises world0) \<noteq> Inl (PyException ''boom'')"
proof -
  have h1: "connection ctx0 = None" by (simp add: ctx0_def PooledTransactionContext_def)
  have h2: "\<not> is_done ctx0" by (simp add: ctx0_def PooledTransactionContext_def)
  have h3: "ctx.pool ctx0 = Some (Pool 0)" by (simp add: ctx0_def PooledTransactionContext_def)
  have h4: "pool_acquire driver_release_fails (Pool 0) = Inr (Connection 7)"
    by (simp add: driver_release_fails_def driver_ok_def)
  have h5: "tx_start driver_release_fails (Connection 7) = None"
    by (simp add: driver_release_fails_def driver_ok_def)
  have h6: "pool_release driver_release_fails (Pool 0) (Connection 7)
      = Some (InterfaceError ''release failed'')"
    by (simp add: driver_release_fails_def driver_ok_def)
  have b: "body_raises (TransactedConnectionProxy (Connection 7))
      (snd (snd (aenter driver_release_fails ctx0 world0)))
       = (Inl (PyException ''boom''), snd (snd (aenter driver_release_fails ctx0 world0)))"
    by (simp add: body_raises_def)
  have r: "fst (async_with driver_release_fails ctx0 body_raises world0)
       = Inl (InterfaceError ''release failed'')"
    using exit_after_raise(1) [where body = body_raises and w = world0, OF h1 h2 h3 h4 h5 b] by (simp add: h6)
  show ?thesis using b r by simp
qed

text \<open>
  C7, amended: when the body raises, the rollback is attempted and whatever it answers is
  swallowed (the outcome is the same for every answer \<open>rb\<close> of the rollback): the
  exception that leaves the \<open>async with\<close> block is the body's own, unless the release
  of the connection to the pool raises, and then it is the release's. When the body
  completes, the commit is performed; an exception of the commit is the one that leaves
  the block, and never suppressed.
\<close>

theorem exit_outcome:
  assumes "connection c = None" "\<not> is_done c" "ctx.pool c = Some pl"
    "pool_acquire d pl = Inr con" "tx_start d con = None"
  shows "(body (TransactedConnectionProxy con) (snd (snd (aenter d c w))) = (Inl x, w2)
          \<longrightarrow> fst (async_with d c body w)
                = (case pool_release d pl con of None \<Rightarrow> Inl x | Some e \<Rightarrow> Inl e)
            \<and> fst (async_with (d\<lparr>tx_rollback := rb\<rparr>) c body w) = fst (async_with d c body w)
            \<and> EvTxRollback con \<in> set (trace (snd (snd (async_with d c body w)))))
       \<and> (body (TransactedConnectionProxy con) (snd (snd (aenter d c w))) = (Inr v, w2)
          \<longrightarrow> fst (async_with d c body w)
                = (case tx_commit d con of
                     Some e \<Rightarrow> Inl e
                   | None \<Rightarrow>
                      (case pool_release d pl con of None \<Rightarrow> Inr v | Some e \<Rightarrow> Inl e))
            \<and> EvTxCommit con \<in> set (trace (snd (snd (async_with d c body w)))))"
proof (intro conjI impI)
  assume a: "body (TransactedConnectionProxy con) (snd (snd (aenter d c w))) = (Inl x, w2)"
  show 1: "fst (async_with d c body w)
                = (case pool_release d pl con of None \<Rightarrow> Inl x | Some e \<Rightarrow> Inl e)"
    by (rule exit_after_raise(1) [where body = body and w = w, OF assms a])
  show "EvTxRollback con \<in> set (trace (snd (snd (async_with d c body w))))"
    by (rule exit_after_raise(2) [where body = body and w = w, OF assms a])
  have p: "pool_acquire (d\<lparr>tx_rollback := rb\<rparr>) pl = Inr con" using assms(4) by simp
  have s: "tx_start (d\<lparr>tx_rollback := rb\<rparr>) con = None" using assms(5) by simp
  have a': "body (TransactedConnectionProxy con)
      (snd (snd (aenter (d\<lparr>tx_rollback := rb\<rparr>) c w))) = (Inl x, w2)"
    using a by (simp add: aenter_rollback_irrelevant)
  have "fst (async_with (d\<lparr>tx_rollback := rb\<rparr>) c body w)
      = (case pool_release (d\<lparr>tx_rollback := rb\<rparr>) pl con of
           None \<Rightarrow> Inl x | Some e \<Rightarrow> Inl e)"
    by (rule exit_after_raise(1) [where body = body and w = w, OF assms(1-3) p s a'])
  then show "fst (async_with (d\<lparr>tx_rollback := rb\<rparr>) c body w) = fst (async_with d c body w)"
    using 1 by simp
next
  assume a: "body (TransactedConnectionProxy con) (snd (snd (aenter d c w))) = (Inr v, w2)"
  show "fst (async_with d c body w)
                = (case tx_commit d con of
                     Some e \<Rightarrow> Inl e
                   | None \<Rightarrow>
                      (case pool_release d pl con of None \<Rightarrow> Inr v | Some e \<Rightarrow> Inl e))"
    by (rule exit_after_return(1) [where body = body and w = w, OF assms a])
  show "EvTxCommit con \<in> set (trace (snd (snd (async_with d c body w))))"
    by (rule exit_after_return(2) [where body = body and w = w, OF assms a])
qed

theorem exit_outcome_witness:
  "tx_rollback driver_rollback_fails (Connection 7)
     = Some (Asyncpg OtherPostgresError ''rollback failed'')
   \<and> fst (async_with driver_rollback_fails ctx0 body_raises world0) = Inl (PyException ''boom'')
   \<and> EvTxRollback (Connection 7)
       \<in> set (trace (snd (snd (async_with driver_rollback_fails ctx0 body_raises world0))))
   \<and> fst (async_with driver_commit_fails ctx0 body_returns world0)
       = Inl (Asyncpg OtherPostgresError ''commit failed'')"
proof -
  have h1: "connection ctx0 = None" by (simp add: ctx0_def PooledTransactionContext_def)
  have h2: "\<not> is_done ctx0" by (simp add: ctx0_def PooledTransactionContext_def)
  have h3: "ctx.pool ctx0 = Some (Pool 0)" by (simp add: ctx0_def PooledTransactionContext_def)
  have r4: "pool_acquire driver_rollback_fails (Pool 0) = Inr (Connection 7)"
    by (simp add: driver_rollback_fails_def driver_ok_def)
  have r5: "tx_start driver_rollback_fails (Connection 7) = None"
    by (simp add: driver_rollback_fails_def driver_ok_def)
  have r6: "pool_release driver_rollback_fails (Pool 0) (Connection 7) = None"
    by (simp add: driver_rollback_fails_def driver_ok_def)
  have r7: "tx_rollback driver_rollback_fails (Connection 7)
     = Some (Asyncpg OtherPostgresError ''rollback failed'')"
    by (simp add: driver_rollback_fails_def driver_ok_def)
  have c4: "pool_acquire driver_commit_fails (Pool 0) = Inr (Connection 7)"
    by (simp add: driver_commit_fails_def driver_ok_def)
  have c5: "tx_start driver_commit_fails (Connection 7) = None"
    by (simp add: driver_commit_fails_def driver_ok_def)
  have c6: "tx_commit driver_commit_fails (Connection 7)
     = Some (Asyncpg OtherPostgresError ''commit failed'')"
    by (simp add: driver_commit_fails_def driver_ok_def)
  have b1: "body_raises (TransactedConnectionProxy (Connection 7))
      (snd (snd (aenter driver_rollback_fails ctx0 world0)))
       = (Inl (PyException ''boom''), snd (snd (aenter driver_rollback_fails ctx0 world0)))"
    by (simp add: body_raises_def)
  have b2: "body_returns (TransactedConnectionProxy (Connection 7))
      (snd (snd (aenter driver_commit_fails ctx0 world0)))
       = (Inr (), snd (snd (aenter driver_commit_fails ctx0 world0)))"
    by (simp add: body_returns_def)
  note t1 = exit_outcome [where body = body_raises and w = world0
      and x = "PyException ''boom''"
      and ?w2.0 = "snd (snd (aenter driver_rollback_fails ctx0 world0))",
      OF h1 h2 h3 r4 r5]
  from t1 b1 have
    "fst (async_with driver_rollback_fails ctx0 body_raises world0)
       = (case pool_release driver_rollback_fails (Pool 0) (Connection 7) of
            None \<Rightarrow> Inl (PyException ''boom'') | Some e \<Rightarrow> Inl e)"
    by blast
  then have 1: "fst (async_with driver_rollback_fails ctx0 body_raises world0)
       = Inl (PyException ''boom'')"
    by (simp add: r6)
  from t1 b1 have 2: "EvTxRollback (Connection 7)
       \<in> set (trace (snd (snd (async_with driver_rollback_fails ctx0 body_raises world0))))"
    by blast
  note t2 = exit_outcome [where body = body_returns and w = world0 and v = "()"
      and ?w2.0 = "snd (snd (aenter driver_commit_fails ctx0 world0))",
      OF h1 h2 h3 c4 c5]
  from t2 b2 have
    "fst (async_with driver_commit_fails ctx0 body_returns world0)
       = (case tx_commit driver_commit_fails (Connection 7) of
            Some e \<Rightarrow> Inl e
          | None \<Rightarrow>
             (case pool_release driver_commit_fails (Pool 0) (Connection 7) of
                None \<Rightarrow> Inr () | Some e \<Rightarrow> Inl e))"
    by blast
  then have 3: "fst (async_with driver_commit_fails ctx0 body_returns world0)
       = Inl (Asyncpg OtherPostgresError ''commit failed'')"
    by (simp add: c6)
  show ?thesis using r7 1 2 3 by blast
qed

section \<open>Creating the pool\<close>

text \<open>
  What \<open>_create_pool\<close> does on an engine without a pool when the first attempt fails:
  with \<open>create_db\<close> and a database that does not exist, \<open>db_create\<close> runs and the pool
  creation is tried once more; a failure of any other class is raised as
  \<open>DBConnectionError\<close> with the database's name.
\<close>

lemma create_pool_autocreate:
  assumes "engine.pool e = None" "create_pool d 0 = Inl (Asyncpg InvalidCatalogNameError m)"
    "db_create d e (log EvCreatePool w) = (Inr (), w2)" "create_pool d 1 = Inr p"
  shows "engine_create_pool d True e w
           = (Inr (), e\<lparr>engine.pool := Some p\<rparr>, log EvCreatePool w2)"
  using assms by (simp add: engine_create_pool_def Let_def)

lemma create_pool_other_failure:
  assumes "engine.pool e = None" "create_pool d 0 = Inl x"
    "\<forall>m. x \<noteq> Asyncpg InvalidCatalogNameError m"
  shows "fst (engine_create_pool d create_db e w)
           = Inl (DBConnectionError
               (Str (''Can't establish connection to database '' @ database e)))"
  using assms
  by (simp add: engine_create_pool_def Let_def split: exn.splits pg_class.splits)

text \<open>
  C3, evaluated where it fails: the database does not exist (the first \<open>create_pool\<close>
  raises \<open>InvalidCatalogNameError\<close>) and \<open>create_db\<close> is \<open>False\<close>. The handler does
  nothing, so \<open>_create_pool\<close> returns normally, with no \<open>DBConnectionError\<close> and
  with the pool still unset.
\<close>

theorem create_pool_missing_database_no_autocreate:
  "engine_create_pool driver_no_db False engine_nopool world0
     = (Inr (), engine_nopool, log EvCreatePool world0)
   \<and> engine.pool engine_nopool = None"
  by (simp add: engine_create_pool_def driver_no_db_def driver_ok_def engine_nopool_def
      engine0_def Let_def)

text \<open>
  C4, evaluated where it fails: an engine without a pool and a name without a binding.
  The call of \<open>_create_pool\<close> in \<open>acquire_connection\<close> is not awaited, so no pool is
  created (the engine is unchanged, the driver's \<open>create_pool\<close> is never called) and the
  acquisition goes on against the absent pool, which raises \<open>AttributeError\<close>.
  The awaited call in \<open>init\<close>, on the same engine and driver, does create the pool.
\<close>

theorem acquire_connection_without_pool:
  "acquire_connection driver_ok None engine_nopool world0
     = (Inl (AttributeError ''acquire''), engine_nopool, world0)
   \<and> engine.pool engine_nopool = None
   \<and> EvCreatePool \<notin> set (trace world0)
   \<and> init driver_ok engine_nopool world0
       = (Inr (), engine_nopool\<lparr>engine.pool := Some (Pool 0)\<rparr>, log EvCreatePool world0)"
  by (simp add: acquire_connection_def current_transacted_conn_def TransactedConnections_get_def
      init_def engine_create_pool_def driver_ok_def engine_nopool_def engine0_def world0_def
      Let_def)

text \<open>
  C10: when the \<open>CREATE DATABASE\<close> statement fails with an exception of class
  \<open>Exception\<close>, \<open>db_create\<close> raises \<open>OperationalError\<close> whose message names the
  database and carries the driver's message, and the bootstrap connection is not
  closed: the calls are the connect and the statement only. The close follows the
  statement on the success path only.
\<close>

theorem db_create_failure:
  assumes \<open>connect d = Inr conn\<close>
  shows \<open>(conn_execute d conn (''CREATE DATABASE "'' @ database e @ ''" OWNER "'' @ user e @ ''"'') []
            = Inl x \<and> is_Exception x
          \<longrightarrow> fst (db_create d e w)
                = Inl (OperationalError
                    (Str (''create database '' @ database e @ '', error: '' @ str_exn x)))
            \<and> trace (snd (db_create d e w))
                = trace w @ [EvConnect,
                    EvExecute conn
                      (''CREATE DATABASE "'' @ database e @ ''" OWNER "'' @ user e @ ''"'') []])
       \<and> (conn_execute d conn (''CREATE DATABASE "'' @ database e @ ''" OWNER "'' @ user e @ ''"'') []
            = Inr s
          \<longrightarrow> trace (snd (db_create d e w))
                = trace w @ [EvConnect,
                    EvExecute conn
                      (''CREATE DATABASE "'' @ database e @ ''" OWNER "'' @ user e @ ''"'') [],
                    EvClose conn])\<close>
  using assms
  by (auto simp: db_create_def Let_def log_def split: option.splits)

theorem db_create_failure_witness:
  \<open>connect driver_create_fails = Inr (Connection 99)
   \<and> is_Exception (Asyncpg OtherPostgresError ''permission denied'')
   \<and> fst (db_create driver_create_fails engine0 world0)
       = Inl (OperationalError (Str ''create database test_db, error: permission denied''))
   \<and> EvClose (Connection 99) \<notin> set (trace (snd (db_create driver_create_fails engine0 world0)))\<close>
proof -
  have h: "connect driver_create_fails = Inr (Connection 99)"
    by (simp add: driver_create_fails_def driver_ok_def)
  have x: \<open>conn_execute driver_create_fails (Connection 99)
             (''CREATE DATABASE "'' @ database engine0 @ ''" OWNER "'' @ user engine0 @ ''"'') []
           = Inl (Asyncpg OtherPostgresError ''permission denied'')\<close>
    by (simp add: driver_create_fails_def driver_ok_def)
  have i: "is_Exception (Asyncpg OtherPostgresError ''permission denied'')" by simp
  have r: \<open>fst (db_create driver_create_fails engine0 world0)
                = Inl (OperationalError
                    (Str (''create database '' @ database engine0 @ '', error: ''
                       @ str_exn (Asyncpg OtherPostgresError ''permission denied''))))
            \<and> trace (snd (db_create driver_create_fails engine0 world0))
                = trace world0 @ [EvConnect,
                    EvExecute (Connection 99)
                      (''CREATE DATABASE "'' @ database engine0 @ ''" OWNER "'' @ user engine0 @ ''"'')
                      []]\<close>
    using db_create_failure [OF h, of engine0 "Asyncpg OtherPostgresError ''permission denied''" world0]
      x i by blast
  from r have 1: "fst (db_create driver_create_fails engine0 world0)
       = Inl (OperationalError (Str ''create database test_db, error: permission denied''))"
    by (simp add: engine0_def)
  from r have 2: "EvClose (Connection 99)
       \<notin> set (trace (snd (db_create driver_create_fails engine0 world0)))"
    by (simp add: world0_def)
  show ?thesis using h i 1 2 by blast
qed

section \<open>Results and errors of the operations\<close>

lemma with_acquired_result:
  assumes "serves d e w con" "\<And>w'. fst (body con w') = r"
  shows "fst (with_acquired d body e w) = r"
proof (cases "registry w (engine.name e)")
  case None
  with assms(1) obtain p where p: "engine.pool e = Some p" "pool_acquire d p = Inr con"
      "pool_release d p con = None"
    by (auto simp: serves_def split: option.splits)
  obtain r' w2 where b: "body con (log (EvAcquire p) w) = (r', w2)"
    by (cases "body con (log (EvAcquire p) w)")
  with assms(2) [of "log (EvAcquire p) w"] have "r' = r" by simp
  with None p b show ?thesis
    by (simp add: with_acquired_def acquire_connection_def current_transacted_conn_def
        TransactedConnections_get_def with_connection_def Let_def)
next
  case (Some pr)
  with assms(1) have pr: "pr = TransactedConnectionProxy con"
    by (cases pr) (simp add: serves_def)
  obtain r' w2 where b: "body con w = (r', w2)" by (cases "body con w")
  with assms(2) [of w] have "r' = r" by simp
  with Some pr b show ?thesis
    by (simp add: with_acquired_def acquire_connection_def current_transacted_conn_def
        TransactedConnections_get_def with_connection_def Let_def)
qed

lemma translate_exceptions_fst:
  "fst (translate_exceptions func e w)
     = (case fst (func e w) of Inl x \<Rightarrow> Inl (handler x) | Inr v \<Rightarrow> Inr v)"
  by (simp add: translate_exceptions_def split: prod.splits sum.splits)

lemma execute_query_func_mutating:
  assumes "serves d e w con" "startswith query ''UPDATE'' \<or> startswith query ''DELETE''"
  shows "fst (execute_query_func d query vals e w)
     = (case conn_execute d con query (params_of vals) of
          Inl x \<Rightarrow> Inl x | Inr res \<Rightarrow> Inr (rows_affected res, []))"
  unfolding execute_query_func_def
  by (rule with_acquired_result [OF assms(1)]) (use assms(2) in \<open>simp add: Let_def split: sum.splits\<close>)

lemma execute_query_func_fetching:
  assumes "serves d e w con" "\<not> (startswith query ''UPDATE'' \<or> startswith query ''DELETE'')"
  shows "fst (execute_query_func d query vals e w)
     = (case conn_fetch d con query (params_of vals) of
          Inl x \<Rightarrow> Inl x | Inr rows \<Rightarrow> Inr (int (length rows), rows))"
  unfolding execute_query_func_def
  by (rule with_acquired_result [OF assms(1)]) (use assms(2) in \<open>simp add: Let_def split: sum.splits\<close>)

text \<open>
  C5, as stated, fails: the claim reads the count from the second whitespace-delimited
  token. For the status string \<open>UPDATE  3\<close>, with two spaces, that token is \<open>3\<close>, but
  \<open>split(" ")\<close> cuts at each single space, the second piece is empty, \<open>int\<close> fails on
  it, and \<open>execute_query\<close> returns the count 0.
\<close>

theorem execute_query_result_counterexample:
  "spec_rows_affected ''UPDATE  3'' = 3
   \<and> fst (execute_query driver_two_spaces ''UPDATE t SET x=1'' None engine0 world0) = Inr (0, [])
   \<and> fst (execute_query driver_two_spaces ''UPDATE t SET x=1'' None engine0 world0)
       \<noteq> Inr (spec_rows_affected ''UPDATE  3'', [])"
proof -
  have sp: "spec_rows_affected ''UPDATE  3'' = 3"
    by (simp add: spec_rows_affected_def whitespace_tokens_def spec_whitespace_def
        py_int_def strip_def py_isspace_def unsigned_def digit_val_def)
  have s: "serves driver_two_spaces engine0 world0 (Connection 7)"
    by (simp add: serves_def engine0_def world0_def driver_ok_def driver_two_spaces_def)
  have q: "startswith ''UPDATE t SET x=1'' ''UPDATE'' \<or> startswith ''UPDATE t SET x=1'' ''DELETE''"
    by (simp add: startswith_def)
  have x: "conn_execute driver_two_spaces (Connection 7) ''UPDATE t SET x=1'' (params_of None)
              = Inr ''UPDATE  3''"
    by (simp add: driver_ok_def driver_two_spaces_def)
  have ra: "rows_affected ''UPDATE  3'' = 0"
    by (simp add: rows_affected_def py_int_def strip_def)
  have r: "fst (execute_query driver_two_spaces ''UPDATE t SET x=1'' None engine0 world0)
       = Inr (0, [])"
    by (simp add: execute_query_def translate_exceptions_fst
        execute_query_func_mutating [OF s q] x ra)
  show ?thesis using sp r by simp
qed

text \<open>
  C5, amended: on a connection served to the engine, when the query text begins with
  \<open>UPDATE\<close> or \<open>DELETE\<close> (a case-sensitive prefix test) and the driver answers the
  status string \<open>res\<close>, \<open>execute_query\<close> returns the count and no rows: the count is the
  integer parsed from the second piece of \<open>res\<close> cut at every single space character
  (consecutive spaces give empty pieces, other whitespace does not cut), and it is 0,
  with nothing raised, when there is no second piece or it is not an integer. For every
  other query it returns the number of fetched rows and the rows.
\<close>

theorem execute_query_result:
  assumes "serves d e w con"
  shows "((startswith query ''UPDATE'' \<or> startswith query ''DELETE'')
          \<and> conn_execute d con query (params_of vals) = Inr res
          \<and> index1 (split_on CHR '' '' res) = Some tok \<and> py_int tok = Some n
          \<longrightarrow> fst (execute_query d query vals e w) = Inr (n, []))
       \<and> ((startswith query ''UPDATE'' \<or> startswith query ''DELETE'')
          \<and> conn_execute d con query (params_of vals) = Inr res
          \<and> (index1 (split_on CHR '' '' res) = None
              \<or> index1 (split_on CHR '' '' res) = Some tok \<and> py_int tok = None)
          \<longrightarrow> fst (execute_query d query vals e w) = Inr (0, []))
       \<and> (\<not> (startswith query ''UPDATE'' \<or> startswith query ''DELETE'')
          \<and> conn_fetch d con query (params_of vals) = Inr rows
          \<longrightarrow> fst (execute_query d query vals e w) = Inr (int (length rows), rows))"
proof (intro conjI impI)
  assume a: "(startswith query ''UPDATE'' \<or> startswith query ''DELETE'')
          \<and> conn_execute d con query (params_of vals) = Inr res
          \<and> index1 (split_on CHR '' '' res) = Some tok \<and> py_int tok = Some n"
  then show "fst (execute_query d query vals e w) = Inr (n, [])"
    by (simp add: execute_query_def translate_exceptions_fst
        execute_query_func_mutating [OF assms] rows_affected_def)
next
  assume a: "(startswith query ''UPDATE'' \<or> startswith query ''DELETE'')
          \<and> conn_execute d con query (params_of vals) = Inr res
          \<and> (index1 (split_on CHR '' '' res) = None
              \<or> index1 (split_on CHR '' '' res) = Some tok \<and> py_int tok = None)"
  then have "rows_affected res = 0" by (auto simp: rows_affected_def)
  with a show "fst (execute_query d query vals e w) = Inr (0, [])"
    by (simp add: execute_query_def translate_exceptions_fst
        execute_query_func_mutating [OF assms])
next
  assume a: "\<not> (startswith query ''UPDATE'' \<or> startswith query ''DELETE'')
          \<and> conn_fetch d con query (params_of vals) = Inr rows"
  then show "fst (execute_query d query vals e w) = Inr (int (length rows), rows)"
    by (simp add: execute_query_def translate_exceptions_fst
        execute_query_func_fetching [OF assms])
qed

theorem execute_query_result_witness:
  "serves driver_ok engine0 world0 (Connection 7)
   \<and> fst (execute_query driver_ok ''UPDATE t SET x=1'' None engine0 world0) = Inr (3, [])
   \<and> fst (execute_query driver_bad_status ''DELETE FROM t'' None engine0 world0) = Inr (0, [])
   \<and> fst (execute_query driver_rows ''SELECT * FROM t'' None engine0 world0)
       = Inr (2, [[(''id'', PInt 1)], [(''id'', PInt 2)]])"
proof -
  have s1: "serves driver_ok engine0 world0 (Connection 7)"
    by (simp add: serves_def engine0_def world0_def driver_ok_def)
  have s2: "serves driver_bad_status engine0 world0 (Connection 7)"
    by (simp add: serves_def engine0_def world0_def driver_ok_def driver_bad_status_def)
  have s3: "serves driver_rows engine0 world0 (Connection 7)"
    by (simp add: serves_def engine0_def world0_def driver_ok_def driver_rows_def)
  have q1: "startswith ''UPDATE t SET x=1'' ''UPDATE'' \<or> startswith ''UPDATE t SET x=1'' ''DELETE''"
    by (simp add: startswith_def)
  have q2: "startswith ''DELETE FROM t'' ''UPDATE'' \<or> startswith ''DELETE FROM t'' ''DELETE''"
    by (simp add: startswith_def)
  have q3: "\<not> (startswith ''SELECT * FROM t'' ''UPDATE'' \<or> startswith ''SELECT * FROM t'' ''DELETE'')"
    by (simp add: startswith_def)
  have x1: "conn_execute driver_ok (Connection 7) ''UPDATE t SET x=1'' (params_of None)
              = Inr ''UPDATE 3''"
    by (simp add: driver_ok_def)
  have x2: "conn_execute driver_bad_status (Connection 7) ''DELETE FROM t'' (params_of None)
              = Inr ''UPDATE''"
    by (simp add: driver_ok_def driver_bad_status_def)
  have x3: "conn_fetch driver_rows (Connection 7) ''SELECT * FROM t'' (params_of None)
              = Inr [[(''id'', PInt 1)], [(''id'', PInt 2)]]"
    by (simp add: driver_ok_def driver_rows_def)
  have t1: "index1 (split_on CHR '' '' ''UPDATE 3'') = Some ''3''" by simp
  have t2: "index1 (split_on CHR '' '' ''UPDATE'') = None" by simp
  have p1: "py_int ''3'' = Some 3"
    by (simp add: py_int_def strip_def py_isspace_def unsigned_def digit_val_def)
  have 1: "fst (execute_query driver_ok ''UPDATE t SET x=1'' None engine0 world0) = Inr (3, [])"
    using execute_query_result [OF s1, where query = "''UPDATE t SET x=1''" and vals = None
        and res = "''UPDATE 3''" and tok = "''3''" and n = 3] q1 x1 t1 p1
    by blast
  have 2: "fst (execute_query driver_bad_status ''DELETE FROM t'' None engine0 world0) = Inr (0, [])"
    using execute_query_result [OF s2, where query = "''DELETE FROM t''" and vals = None
        and res = "''UPDATE''"] q2 x2 t2
    by blast
  have 3: "fst (execute_query driver_rows ''SELECT * FROM t'' None engine0 world0)
       = Inr (int (length [[(''id'', PInt 1)], [(''id'', PInt (2::int))]]),
              [[(''id'', PInt 1)], [(''id'', PInt 2)]])"
    using execute_query_result [OF s3, where query = "''SELECT * FROM t''" and vals = None
        and rows = "[[(''id'', PInt 1)], [(''id'', PInt 2)]]"] q3 x3
    by blast
  have 4: "int (length [[(''id'', PInt 1)], [(''id'', PInt (2::int))]]) = 2" by simp
  show ?thesis using s1 1 2 3 unfolding 4 by blast
qed

lemma execute_insert_func_result:
  assumes "serves d e w con"
  shows "fst (execute_insert_func d query vals e w) = conn_fetchrow d con query vals"
  unfolding execute_insert_func_def
  by (rule with_acquired_result [OF assms]) simp

lemma execute_query_dict_func_result:
  assumes "serves d e w con"
  shows "fst (execute_query_dict_func d query vals e w)
     = (case conn_fetch d con query (params_of vals) of
          Inl x \<Rightarrow> Inl x | Inr rows \<Rightarrow> Inr (map dict rows))"
  unfolding execute_query_dict_func_def
  by (rule with_acquired_result [OF assms]) (simp add: Let_def split: sum.splits)

lemma execute_script_func_result:
  assumes "serves d e w con"
  shows "fst (execute_script_func d query e w)
     = (case conn_execute d con query [] of Inl x \<Rightarrow> Inl x | Inr _ \<Rightarrow> Inr ())"
  unfolding execute_script_func_def
  by (rule with_acquired_result [OF assms]) (simp split: sum.splits)

lemma handler_other:
  assumes "\<forall>m. x \<noteq> Asyncpg SyntaxOrAccessError m"
    "\<forall>m. x \<noteq> Asyncpg IntegrityConstraintViolationError m"
    "\<forall>m. x \<noteq> Asyncpg InvalidTransactionStateError m"
  shows "handler x = x"
  using assms by (cases x rule: handler.cases) simp_all

lemma with_acquired_acquire_fails:
  assumes "registry w (engine.name e) = None" "engine.pool e = Some p"
    "pool_acquire d p = Inl x"
  shows "fst (with_acquired d body e w) = Inl x"
  using assms
  by (simp add: with_acquired_def acquire_connection_def current_transacted_conn_def
      TransactedConnections_get_def with_connection_def Let_def)

lemma with_acquired_release_fails:
  assumes "registry w (engine.name e) = None" "engine.pool e = Some p"
    "pool_acquire d p = Inr con" "pool_release d p con = Some x"
  shows "fst (with_acquired d body e w) = Inl x"
  using assms
  by (simp add: with_acquired_def acquire_connection_def current_transacted_conn_def
      TransactedConnections_get_def with_connection_def Let_def split: prod.splits)

lemma with_acquired_scope_fails:
  assumes "registry w (engine.name e) = None \<and> engine.pool e = Some p
     \<and> (pool_acquire d p = Inl x \<or> pool_acquire d p = Inr con \<and> pool_release d p con = Some x)"
  shows "fst (with_acquired d body e w) = Inl x"
  using assms with_acquired_acquire_fails [of w e p d x body]
    with_acquired_release_fails [of w e p d con x body]
  by blast

lemma execute_many_func_result:
  assumes "serves d e w con"
  shows "fst (execute_many_func d query rws e w)
     = (case tx_start d con of
          Some x \<Rightarrow> Inl x
        | None \<Rightarrow>
           (case conn_executemany d con query rws of
              Some x \<Rightarrow> (case tx_rollback d con of Some x' \<Rightarrow> Inl x' | None \<Rightarrow> Inl x)
            | None \<Rightarrow> (case tx_commit d con of Some x' \<Rightarrow> Inl x' | None \<Rightarrow> Inr ())))"
  unfolding execute_many_func_def
  by (rule with_acquired_result [OF assms])
     (simp add: with_transaction_def Let_def split: option.splits)

text \<open>
  C6: for each of the five operations, whatever exception leaves the decorated function,
  from wherever inside it was raised, leaves the operation as \<open>handler\<close> of it, and a
  result is passed on: a syntax-or-access error becomes \<open>OperationalError\<close>, an
  integrity-constraint violation \<open>IntegrityError\<close>, an invalid-transaction-state error
  \<open>TransactionManagementError\<close>, each carrying the driver's exception, and any other
  exception is unchanged. The driver's exceptions do arrive there from every call the
  operations make: from the acquisition of a connection from the pool and from its
  release, from the statement call of each operation on the connection served, and, for
  \<open>execute_many\<close>, from the start, the rollback and the commit of its transaction block.
\<close>

theorem operations_translate_exceptions:
  "(fst (execute_insert d query vals e w)
      = (case fst (execute_insert_func d query vals e w) of
           Inl x \<Rightarrow> Inl (handler x) | Inr v \<Rightarrow> Inr v)
    \<and> fst (execute_many d query rws e w)
      = (case fst (execute_many_func d query rws e w) of
           Inl x \<Rightarrow> Inl (handler x) | Inr v \<Rightarrow> Inr v)
    \<and> fst (execute_query d query ovals e w)
      = (case fst (execute_query_func d query ovals e w) of
           Inl x \<Rightarrow> Inl (handler x) | Inr v \<Rightarrow> Inr v)
    \<and> fst (execute_query_dict d query ovals e w)
      = (case fst (execute_query_dict_func d query ovals e w) of
           Inl x \<Rightarrow> Inl (handler x) | Inr v \<Rightarrow> Inr v)
    \<and> fst (execute_script d query e w)
      = (case fst (execute_script_func d query e w) of
           Inl x \<Rightarrow> Inl (handler x) | Inr v \<Rightarrow> Inr v))
   \<and> (handler (Asyncpg SyntaxOrAccessError m)
         = OperationalError (Exc (Asyncpg SyntaxOrAccessError m))
    \<and> handler (Asyncpg IntegrityConstraintViolationError m)
         = IntegrityError (Exc (Asyncpg IntegrityConstraintViolationError m))
    \<and> handler (Asyncpg InvalidTransactionStateError m)
         = TransactionManagementError (Exc (Asyncpg InvalidTransactionStateError m))
    \<and> ((\<forall>m'. x \<noteq> Asyncpg SyntaxOrAccessError m')
          \<and> (\<forall>m'. x \<noteq> Asyncpg IntegrityConstraintViolationError m')
          \<and> (\<forall>m'. x \<noteq> Asyncpg InvalidTransactionStateError m')
        \<longrightarrow> handler x = x))
   \<and> (registry w (engine.name e) = None \<and> engine.pool e = Some p
        \<and> (pool_acquire d p = Inl x
            \<or> pool_acquire d p = Inr con \<and> pool_release d p con = Some x)
      \<longrightarrow> fst (execute_insert d query vals e w) = Inl (handler x)
        \<and> fst (execute_many d query rws e w) = Inl (handler x)
        \<and> fst (execute_query d query ovals e w) = Inl (handler x)
        \<and> fst (execute_query_dict d query ovals e w) = Inl (handler x)
        \<and> fst (execute_script d query e w) = Inl (handler x))
   \<and> (serves d e w con
      \<longrightarrow> (conn_fetchrow d con query vals = Inl x
            \<longrightarrow> fst (execute_insert d query vals e w) = Inl (handler x))
        \<and> (tx_start d con = Some x
            \<longrightarrow> fst (execute_many d query rws e w) = Inl (handler x))
        \<and> (tx_start d con = None \<and> conn_executemany d con query rws = Some x
              \<and> tx_rollback d con = None
            \<longrightarrow> fst (execute_many d query rws e w) = Inl (handler x))
        \<and> (tx_start d con = None \<and> conn_executemany d con query rws = Some x0
              \<and> tx_rollback d con = Some x
            \<longrightarrow> fst (execute_many d query rws e w) = Inl (handler x))
        \<and> (tx_start d con = None \<and> conn_executemany d con query rws = None
              \<and> tx_commit d con = Some x
            \<longrightarrow> fst (execute_many d query rws e w) = Inl (handler x))
        \<and> ((startswith query ''UPDATE'' \<or> startswith query ''DELETE'')
              \<and> conn_execute d con query (params_of ovals) = Inl x
            \<longrightarrow> fst (execute_query d query ovals e w) = Inl (handler x))
        \<and> (\<not> (startswith query ''UPDATE'' \<or> startswith query ''DELETE'')
              \<and> conn_fetch d con query (params_of ovals) = Inl x
            \<longrightarrow> fst (execute_query d query ovals e w) = Inl (handler x))
        \<and> (conn_fetch d con query (params_of ovals) = Inl x
            \<longrightarrow> fst (execute_query_dict d query ovals e w) = Inl (handler x))
        \<and> (conn_execute d con query [] = Inl x
            \<longrightarrow> fst (execute_script d query e w) = Inl (handler x)))"
  (is "?General \<and> ?Handler \<and> ?Scope \<and> ?Calls")
proof -
  have g: ?General
    by (simp add: execute_insert_def execute_many_def execute_query_def execute_query_dict_def
        execute_script_def translate_exceptions_fst)
  have h: ?Handler
    by (simp add: handler_other)
  have s: ?Scope
  proof (intro impI)
    assume a: "registry w (engine.name e) = None \<and> engine.pool e = Some p
        \<and> (pool_acquire d p = Inl x
            \<or> pool_acquire d p = Inr con \<and> pool_release d p con = Some x)"
    have 1: "fst (execute_insert_func d query vals e w) = Inl x"
      unfolding execute_insert_func_def by (rule with_acquired_scope_fails [OF a])
    have 2: "fst (execute_many_func d query rws e w) = Inl x"
      unfolding execute_many_func_def by (rule with_acquired_scope_fails [OF a])
    have 3: "fst (execute_query_func d query ovals e w) = Inl x"
      unfolding execute_query_func_def by (rule with_acquired_scope_fails [OF a])
    have 4: "fst (execute_query_dict_func d query ovals e w) = Inl x"
      unfolding execute_query_dict_func_def by (rule with_acquired_scope_fails [OF a])
    have 5: "fst (execute_script_func d query e w) = Inl x"
      unfolding execute_script_func_def by (rule with_acquired_scope_fails [OF a])
    show "fst (execute_insert d query vals e w) = Inl (handler x)
        \<and> fst (execute_many d query rws e w) = Inl (handler x)
        \<and> fst (execute_query d query ovals e w) = Inl (handler x)
        \<and> fst (execute_query_dict d query ovals e w) = Inl (handler x)
        \<and> fst (execute_script d query e w) = Inl (handler x)"
      by (simp add: execute_insert_def execute_many_def execute_query_def
          execute_query_dict_def execute_script_def translate_exceptions_fst 1 2 3 4 5)
  qed
  have c: ?Calls
  proof (intro impI)
    assume sv: "serves d e w con"
    note many = execute_many_func_result [OF sv, of query rws]
    show "(conn_fetchrow d con query vals = Inl x
            \<longrightarrow> fst (execute_insert d query vals e w) = Inl (handler x))
        \<and> (tx_start d con = Some x
            \<longrightarrow> fst (execute_many d query rws e w) = Inl (handler x))
        \<and> (tx_start d con = None \<and> conn_executemany d con query rws = Some x
              \<and> tx_rollback d con = None
            \<longrightarrow> fst (execute_many d query rws e w) = Inl (handler x))
        \<and> (tx_start d con = None \<and> conn_executemany d con query rws = Some x0
              \<and> tx_rollback d con = Some x
            \<longrightarrow> fst (execute_many d query rws e w) = Inl (handler x))
        \<and> (tx_start d con = None \<and> conn_executemany d con query rws = None
              \<and> tx_commit d con = Some x
            \<longrightarrow> fst (execute_many d query rws e w) = Inl (handler x))
        \<and> ((startswith query ''UPDATE'' \<or> startswith query ''DELETE'')
              \<and> conn_execute d con query (params_of ovals) = Inl x
            \<longrightarrow> fst (execute_query d query ovals e w) = Inl (handler x))
        \<and> (\<not> (startswith query ''UPDATE'' \<or> startswith query ''DELETE'')
              \<and> conn_fetch d con query (params_of ovals) = Inl x
            \<longrightarrow> fst (execute_query d query ovals e w) = Inl (handler x))
        \<and> (conn_fetch d con query (params_of ovals) = Inl x
            \<longrightarrow> fst (execute_query_dict d query ovals e w) = Inl (handler x))
        \<and> (conn_execute d con query [] = Inl x
            \<longrightarrow> fst (execute_script d query e w) = Inl (handler x))"
    proof (intro conjI impI)
      assume "conn_fetchrow d con query vals = Inl x"
      then show "fst (execute_insert d query vals e w) = Inl (handler x)"
        by (simp add: execute_insert_def translate_exceptions_fst
            execute_insert_func_result [OF sv])
    next
      assume "tx_start d con = Some x"
      then show "fst (execute_many d query rws e w) = Inl (handler x)"
        by (simp add: execute_many_def translate_exceptions_fst many)
    next
      assume "tx_start d con = None \<and> conn_executemany d con query rws = Some x
              \<and> tx_rollback d con = None"
      then show "fst (execute_many d query rws e w) = Inl (handler x)"
        by (simp add: execute_many_def translate_exceptions_fst many)
    next
      assume "tx_start d con = None \<and> conn_executemany d con query rws = Some x0
              \<and> tx_rollback d con = Some x"
      then show "fst (execute_many d query rws e w) = Inl (handler x)"
        by (simp add: execute_many_def translate_exceptions_fst many)
    next
      assume "tx_start d con = None \<and> conn_executemany d con query rws = None
              \<and> tx_commit d con = Some x"
      then show "fst (execute_many d query rws e w) = Inl (handler x)"
        by (simp add: execute_many_def translate_exceptions_fst many)
    next
      assume "(startswith query ''UPDATE'' \<or> startswith query ''DELETE'')
              \<and> conn_execute d con query (params_of ovals) = Inl x"
      then show "fst (execute_query d query ovals e w) = Inl (handler x)"
        by (simp add: execute_query_def translate_exceptions_fst
            execute_query_func_mutating [OF sv])
    next
      assume "\<not> (startswith query ''UPDATE'' \<or> startswith query ''DELETE'')
              \<and> conn_fetch d con query (params_of ovals) = Inl x"
      then show "fst (execute_query d query ovals e w) = Inl (handler x)"
        by (simp add: execute_query_def translate_exceptions_fst
            execute_query_func_fetching [OF sv])
    next
      assume "conn_fetch d con query (params_of ovals) = Inl x"
      then show "fst (execute_query_dict d query ovals e w) = Inl (handler x)"
        by (simp add: execute_query_dict_def translate_exceptions_fst
            execute_query_dict_func_result [OF sv])
    next
      assume "conn_execute d con query [] = Inl x"
      then show "fst (execute_script d query e w) = Inl (handler x)"
        by (simp add: execute_script_def translate_exceptions_fst
            execute_script_func_result [OF sv])
    qed
  qed
  show ?thesis by (rule conjI [OF g conjI [OF h conjI [OF s c]]])
qed

theorem operations_translate_exceptions_witness:
  "serves driver_syntax_error engine0 world0 (Connection 7)
   \<and> fst (execute_insert driver_syntax_error ''INSERT INTO t VALUES ($1)'' [PInt 1] engine0 world0)
       = Inl (OperationalError (Exc (Asyncpg SyntaxOrAccessError ''syntax error'')))
   \<and> fst (execute_many driver_integrity ''INSERT INTO t VALUES ($1)'' [[PInt 1], [PInt 1]]
            engine0 world0)
       = Inl (IntegrityError (Exc (Asyncpg IntegrityConstraintViolationError ''duplicate key'')))
   \<and> fst (execute_query driver_tx_state ''UPDATE t SET x=1'' None engine0 world0)
       = Inl (TransactionManagementError
                (Exc (Asyncpg InvalidTransactionStateError ''no active transaction'')))
   \<and> fst (execute_script driver_tx_state ''COMMIT'' engine0 world0)
       = Inl (TransactionManagementError
                (Exc (Asyncpg InvalidTransactionStateError ''no active transaction'')))
   \<and> fst (execute_query_dict driver_acquire_fails ''SELECT * FROM t'' None engine0 world0)
       = Inl (InterfaceError ''pool is closed'')"
proof -
  have s1: "serves driver_syntax_error engine0 world0 (Connection 7)"
    by (simp add: serves_def engine0_def world0_def driver_ok_def driver_syntax_error_def)
  have f1: "conn_fetchrow driver_syntax_error (Connection 7) ''INSERT INTO t VALUES ($1)'' [PInt 1]
       = Inl (Asyncpg SyntaxOrAccessError ''syntax error'')"
    by (simp add: driver_ok_def driver_syntax_error_def)
  note r1 = operations_translate_exceptions [where d = driver_syntax_error and e = engine0
      and w = world0 and con = "Connection 7" and query = "''INSERT INTO t VALUES ($1)''"
      and vals = "[PInt 1]" and x = "Asyncpg SyntaxOrAccessError ''syntax error''",
      THEN conjunct2, THEN conjunct2, THEN conjunct2, THEN mp, OF s1]
  have 1: "fst (execute_insert driver_syntax_error ''INSERT INTO t VALUES ($1)'' [PInt 1]
               engine0 world0)
       = Inl (OperationalError (Exc (Asyncpg SyntaxOrAccessError ''syntax error'')))"
    using r1 [THEN conjunct1, THEN mp, OF f1] by simp
  have s2: "serves driver_integrity engine0 world0 (Connection 7)"
    by (simp add: serves_def engine0_def world0_def driver_ok_def driver_integrity_def)
  have f2: "tx_start driver_integrity (Connection 7) = None
      \<and> conn_executemany driver_integrity (Connection 7) ''INSERT INTO t VALUES ($1)''
           [[PInt 1], [PInt 1]]
         = Some (Asyncpg IntegrityConstraintViolationError ''duplicate key'')
      \<and> tx_rollback driver_integrity (Connection 7) = None"
    by (simp add: driver_ok_def driver_integrity_def)
  note r2 = operations_translate_exceptions [where d = driver_integrity and e = engine0
      and w = world0 and con = "Connection 7" and query = "''INSERT INTO t VALUES ($1)''"
      and rws = "[[PInt 1], [PInt 1]]"
      and x = "Asyncpg IntegrityConstraintViolationError ''duplicate key''",
      THEN conjunct2, THEN conjunct2, THEN conjunct2, THEN mp, OF s2]
  have 2: "fst (execute_many driver_integrity ''INSERT INTO t VALUES ($1)''
            [[PInt 1], [PInt 1]] engine0 world0)
       = Inl (IntegrityError (Exc (Asyncpg IntegrityConstraintViolationError ''duplicate key'')))"
    using r2 [THEN conjunct2, THEN conjunct2, THEN conjunct1, THEN mp, OF f2] by simp
  have s3: "serves driver_tx_state engine0 world0 (Connection 7)"
    by (simp add: serves_def engine0_def world0_def driver_ok_def driver_tx_state_def)
  have f3: "(startswith ''UPDATE t SET x=1'' ''UPDATE'' \<or> startswith ''UPDATE t SET x=1'' ''DELETE'')
      \<and> conn_execute driver_tx_state (Connection 7) ''UPDATE t SET x=1'' (params_of None)
         = Inl (Asyncpg InvalidTransactionStateError ''no active transaction'')"
    by (simp add: driver_ok_def driver_tx_state_def startswith_def)
  note r3 = operations_translate_exceptions [where d = driver_tx_state and e = engine0
      and w = world0 and con = "Connection 7" and query = "''UPDATE t SET x=1''"
      and ovals = None
      and x = "Asyncpg InvalidTransactionStateError ''no active transaction''",
      THEN conjunct2, THEN conjunct2, THEN conjunct2, THEN mp, OF s3]
  have 3: "fst (execute_query driver_tx_state ''UPDATE t SET x=1'' None engine0 world0)
       = Inl (TransactionManagementError
                (Exc (Asyncpg InvalidTransactionStateError ''no active transaction'')))"
    using r3 [THEN conjunct2, THEN conjunct2, THEN conjunct2, THEN conjunct2, THEN conjunct2,
        THEN conjunct1, THEN mp, OF f3]
    by simp
  have f4: "conn_execute driver_tx_state (Connection 7) ''COMMIT'' []
         = Inl (Asyncpg InvalidTransactionStateError ''no active transaction'')"
    by (simp add: driver_ok_def driver_tx_state_def)
  note r4 = operations_translate_exceptions [where d = driver_tx_state and e = engine0
      and w = world0 and con = "Connection 7" and query = "''COMMIT''"
      and x = "Asyncpg InvalidTransactionStateError ''no active transaction''",
      THEN conjunct2, THEN conjunct2, THEN conjunct2, THEN mp, OF s3]
  have 4: "fst (execute_script driver_tx_state ''COMMIT'' engine0 world0)
       = Inl (TransactionManagementError
                (Exc (Asyncpg InvalidTransactionStateError ''no active transaction'')))"
    using r4 [THEN conjunct2, THEN conjunct2, THEN conjunct2, THEN conjunct2, THEN conjunct2,
        THEN conjunct2, THEN conjunct2, THEN conjunct2, THEN mp, OF f4]
    by simp
  have f5: "registry world0 (engine.name engine0) = None \<and> engine.pool engine0 = Some (Pool 0)
      \<and> (pool_acquire driver_acquire_fails (Pool 0) = Inl (InterfaceError ''pool is closed'')
          \<or> pool_acquire driver_acquire_fails (Pool 0) = Inr (Connection 7)
             \<and> pool_release driver_acquire_fails (Pool 0) (Connection 7)
                 = Some (InterfaceError ''pool is closed''))"
    by (simp add: engine0_def world0_def driver_ok_def driver_acquire_fails_def)
  note r5 = operations_translate_exceptions [where d = driver_acquire_fails and e = engine0
      and w = world0 and con = "Connection 7" and p = "Pool 0"
      and query = "''SELECT * FROM t''" and ovals = None
      and x = "InterfaceError ''pool is closed''",
      THEN conjunct2, THEN conjunct2, THEN conjunct1, THEN mp, OF f5]
  have 5: "fst (execute_query_dict driver_acquire_fails ''SELECT * FROM t'' None
                  engine0 world0)
       = Inl (InterfaceError ''pool is closed'')"
    using r5 [THEN conjunct2, THEN conjunct2, THEN conjunct2, THEN conjunct1] by simp
  show ?thesis
    by (rule conjI [OF s1 conjI [OF 1 conjI [OF 2 conjI [OF 3 conjI [OF 4 5]]]]])
qed

end
